theory Spec2Isabelle
  imports Main "HOL-Library.AList"
begin

section \<open>Kubernetes pod controller of jina: \<^verbatim>\<open>jina/peapods/pods/k8s.py\<close>\<close>

subsection \<open>Values of the argument bag\<close>

text \<open>
  The only members of \<^verbatim>\<open>PeaRoleType\<close> that \<^verbatim>\<open>k8s.py\<close> assigns are \<^verbatim>\<open>HEAD\<close> and
  \<^verbatim>\<open>GATEWAY\<close>; whatever other member an incoming argument bag carries is \<open>ROLE s\<close>.
\<close>

datatype PeaRoleType = HEAD | GATEWAY | ROLE string

text \<open>
  The exceptions that leave the functions modelled here. An \<^verbatim>\<open>ApiException\<close> is
  represented by its \<^verbatim>\<open>repr\<close>, the only thing the controller reads from it.
\<close>

datatype exn =
    RuntimeFailToStart string
  | ApiException string
  | ValueError string
  | AttributeError string
  | AssertionError string
  | KeyError string

text \<open>
  The \<^verbatim>\<open>argparse.Namespace\<close> the controller is built from. An attribute the source reads
  with \<^verbatim>\<open>getattr(args, a, default)\<close> may be absent and is an option here: \<open>None\<close> is the
  absent attribute for \<open>shards\<close> and \<open>replicas\<close>, whose default is 1, and the absent
  attribute or the Python value \<^verbatim>\<open>None\<close> for \<open>uses_before\<close> and \<open>uses_after\<close>, whose
  default is \<^verbatim>\<open>None\<close>. An attribute the source reads as \<^verbatim>\<open>args.a\<close> is present;
  \<open>uses_with\<close> and \<open>dump_path\<close> are options for the Python value \<^verbatim>\<open>None\<close>. The
  attributes from \<open>runtime_cls\<close> on are the ones the partitioner adds to its copies,
  \<open>None\<close> before it does.
\<close>

record Namespace =
  name :: string
  shards :: "int option"
  replicas :: "int option"
  uses_before :: "string option"
  uses_after :: "string option"
  k8s_connection_pool :: bool
  k8s_namespace :: string
  timeout_ready :: int
  noblock_on_start :: bool
  uses_with :: "(string \<times> string) list option"
  dump_path :: "string option"
  runtime_cls :: "string option"
  pea_role :: "PeaRoleType option"
  port_in :: "int option"
  connection_list :: "string option"
  uses_before_address :: "string option"
  uses_after_address :: "string option"
  shard_id :: "int option"

text \<open>
  The well-known ports are class attributes of \<^verbatim>\<open>K8sGrpcConnectionPool\<close>, which lives in
  \<^verbatim>\<open>jina/peapods/networking.py\<close>; they are taken as a parameter.
\<close>

record K8sGrpcConnectionPool =
  K8S_PORT_IN :: int
  K8S_PORT_USES_BEFORE :: int
  K8S_PORT_USES_AFTER :: int

subsection \<open>Python's \<^verbatim>\<open>str\<close> on integers, \<^verbatim>\<open>range\<close>, truthiness\<close>

definition digit_char :: "nat \<Rightarrow> char" where
  "digit_char d = ''0123456789'' ! d"

fun str_nat :: "nat \<Rightarrow> string" where
  "str_nat n = (if n < 10 then [digit_char n] else str_nat (n div 10) @ [digit_char (n mod 10)])"

declare str_nat.simps [simp del]

definition str_int :: "int \<Rightarrow> string" where
  "str_int i = (if i < 0 then CHR ''-'' # str_nat (nat (- i)) else str_nat (nat i))"

definition range_py :: "int \<Rightarrow> int list" where
  "range_py n = map int [0..<nat n]"

text \<open>\<^verbatim>\<open>if uses_before:\<close> holds for a non-empty string only.\<close>

definition truthy :: "string option \<Rightarrow> bool" where
  "truthy v = (case v of None \<Rightarrow> False | Some s \<Rightarrow> s \<noteq> [])"

subsection \<open>The topology partitioner: \<^verbatim>\<open>K8sPod._parse_deployment_args\<close>\<close>

record parsed_args =
  head_deployment :: "Namespace option"
  deployments :: "Namespace list"

text \<open>
  Modelled from the spec: \<^verbatim>\<open>BasePod.name\<close>, the property behind \<^verbatim>\<open>self.name\<close>, is in
  \<^verbatim>\<open>jina/peapods/pods/__init__.py\<close>, which is not among the sources; the spec's example
  (a PodSpec named \<^verbatim>\<open>enc\<close> yields the addresses \<^verbatim>\<open>enc-0\<close>, \<^verbatim>\<open>enc-1\<close>) makes it the name
  of the argument bag. \<^verbatim>\<open>self.k8s_namespace\<close> is \<^verbatim>\<open>self.args.k8s_namespace\<close> by
  \<^verbatim>\<open>K8sPod.__init__\<close>, and both callers pass \<^verbatim>\<open>self.args\<close> as \<^verbatim>\<open>args\<close>.
\<close>

definition K8sPod_name :: "Namespace \<Rightarrow> string" where
  "K8sPod_name args = name args"

text \<open>
  The name of shard \<open>i\<close>, as the source computes it twice (line 528 and, from the number
  of deployments, lines 485-489).
\<close>

definition shard_name :: "string \<Rightarrow> bool \<Rightarrow> int \<Rightarrow> string" where
  "shard_name nm many i = (if many then nm @ ''-'' @ str_int i else nm)"

text \<open>One pass of the loop of lines 527-529: the entry of shard \<open>i\<close>, with its comma.\<close>

definition connection_entry :: "K8sGrpcConnectionPool \<Rightarrow> Namespace \<Rightarrow> int \<Rightarrow> int \<Rightarrow> string" where
  "connection_entry C args shards_v i =
     ''\"'' @ str_int i @ ''\": \"'' @ shard_name (K8sPod_name args) (shards_v > 1) i @ ''.''
       @ k8s_namespace args @ ''.svc:'' @ str_int (K8S_PORT_IN C) @ ''\",''"

text \<open>Lines 526-531: accumulate the entries, drop the last character, close the brace.\<close>

definition connection_list_of :: "K8sGrpcConnectionPool \<Rightarrow> Namespace \<Rightarrow> int \<Rightarrow> string" where
  "connection_list_of C args shards_v =
     butlast (foldl (\<lambda>acc i. acc @ connection_entry C args shards_v i) ''{'' (range_py shards_v))
       @ ''}''"

text \<open>Lines 518-533: the head's copy of the arguments.\<close>

definition head_args_of :: "K8sGrpcConnectionPool \<Rightarrow> Namespace \<Rightarrow> int \<Rightarrow> Namespace" where
  "head_args_of C args shards_v =
     (let h = args\<lparr>replicas := Some 1, runtime_cls := Some ''HeadRuntime'',
                   pea_role := Some HEAD, port_in := Some (K8S_PORT_IN C)\<rparr>
      in if \<not> k8s_connection_pool args
         then h\<lparr>connection_list := Some (connection_list_of C args shards_v)\<rparr>
         else h)"

text \<open>
  Lines 535-546: an attribute assignment on \<^verbatim>\<open>parsed_args['head_deployment']\<close>, which is
  \<^verbatim>\<open>None\<close> for the gateway.
\<close>

definition set_uses_before_address ::
    "K8sGrpcConnectionPool \<Rightarrow> Namespace option \<Rightarrow> exn + Namespace option" where
  "set_uses_before_address C head =
     (case head of
        None \<Rightarrow> Inl (AttributeError ''uses_before_address'')
      | Some h \<Rightarrow> Inr (Some (h\<lparr>uses_before_address :=
                         Some (''127.0.0.1:'' @ str_int (K8S_PORT_USES_BEFORE C))\<rparr>)))"

definition set_uses_after_address ::
    "K8sGrpcConnectionPool \<Rightarrow> Namespace option \<Rightarrow> exn + Namespace option" where
  "set_uses_after_address C head =
     (case head of
        None \<Rightarrow> Inl (AttributeError ''uses_after_address'')
      | Some h \<Rightarrow> Inr (Some (h\<lparr>uses_after_address :=
                         Some (''127.0.0.1:'' @ str_int (K8S_PORT_USES_AFTER C))\<rparr>)))"

text \<open>Lines 549-555: the copy of the arguments for shard \<open>i\<close>.\<close>

definition cargs_of :: "K8sGrpcConnectionPool \<Rightarrow> Namespace \<Rightarrow> int \<Rightarrow> Namespace" where
  "cargs_of C args i =
     (let c = args\<lparr>shard_id := Some i, uses_before := None, uses_after := None,
                   port_in := Some (K8S_PORT_IN C)\<rparr>
      in if name args = ''gateway'' then c\<lparr>pea_role := Some GATEWAY\<rparr> else c)"

text \<open>\<^verbatim>\<open>getattr(args, 'shards', 1)\<close>\<close>

definition shards_of :: "Namespace \<Rightarrow> int" where
  "shards_of args = (case shards args of None \<Rightarrow> 1 | Some s \<Rightarrow> s)"

definition parse_deployment_args :: "K8sGrpcConnectionPool \<Rightarrow> Namespace \<Rightarrow> exn + parsed_args" where
  "parse_deployment_args C args =
     (let shards_v = shards_of args;
          head0 = (if name args \<noteq> ''gateway'' then Some (head_args_of C args shards_v) else None)
      in case (if truthy (uses_before args) then set_uses_before_address C head0 else Inr head0) of
           Inl e \<Rightarrow> Inl e
         | Inr head1 \<Rightarrow>
            (case (if truthy (uses_after args) then set_uses_after_address C head1 else Inr head1) of
               Inl e \<Rightarrow> Inl e
             | Inr head2 \<Rightarrow>
                 Inr \<lparr>head_deployment = head2,
                      deployments = map (cargs_of C args) (range_py shards_v)\<rparr>))"

subsection \<open>The platform\<close>

text \<open>
  Every call that leaves the process is logged, in the order issued: the clock, the
  sleeps, the Kubernetes client and \<^verbatim>\<open>kubernetes_deployment.deploy_service\<close> (whose
  arguments other than the deployment's DNS name, namespace, replica count and replace
  flag are formatting done by \<^verbatim>\<open>k8slib\<close>, not among the sources).
\<close>

datatype call =
    TimeNs
  | Sleep
  | ReadDeployment string string
  | ListPods string string
  | PatchScale string string int
  | DeleteDeployment string string
  | DeployService string string int bool

datatype 'a response = Raises string | Returns 'a

record V1DeploymentStatus =
  ready_replicas :: "int option"
  updated_replicas :: "int option"
  status_replicas :: "int option"

text \<open>
  The platform answers each call from the calls issued before it, so that it may change
  between two polls and in reaction to a mutation. \<open>Raises ex\<close> is an
  \<^verbatim>\<open>ApiException\<close> whose \<^verbatim>\<open>repr\<close> is \<open>ex\<close>; no other exception of a call is
  modelled, nor a failure of the constructor \<^verbatim>\<open>K8sClients()\<close>. The coroutines
  (\<^verbatim>\<open>rolling_update\<close>, \<^verbatim>\<open>scale\<close> and the two waits they await) are followed from start to
  end as the one task that runs them: what other tasks do while this one sleeps shows
  only in the platform's answers.
\<close>

record platform =
  time_ns :: "call list \<Rightarrow> int"
  read_namespaced_deployment :: "call list \<Rightarrow> string \<Rightarrow> string \<Rightarrow> V1DeploymentStatus response"
  list_namespaced_pod :: "call list \<Rightarrow> string \<Rightarrow> string \<Rightarrow> string list response"
  patch_namespaced_deployment_scale :: "call list \<Rightarrow> string \<Rightarrow> string \<Rightarrow> int \<Rightarrow> unit response"
  delete_namespaced_deployment :: "call list \<Rightarrow> string \<Rightarrow> string \<Rightarrow> string response"
  deploy_service :: "call list \<Rightarrow> string \<Rightarrow> string \<Rightarrow> int \<Rightarrow> bool \<Rightarrow> string response"

subsection \<open>The deployment handle: \<^verbatim>\<open>K8sPod._K8sDeployment\<close>\<close>

record K8sDeployment =
  name_dep :: string
  dns_name :: string
  head_port_in :: int
  version :: string
  pea_type :: string
  jina_pod_name :: string
  shard_id_dep :: "int option"
  common_args :: Namespace
  deployment_args :: Namespace
  k8s_namespace_dep :: string
  num_replicas :: int
  cluster_address :: "string option"

text \<open>
  \<^verbatim>\<open>__init__\<close>; \<^verbatim>\<open>kubernetes_deployment.to_dns_name\<close> is in \<^verbatim>\<open>k8slib\<close> and is a
  parameter.
\<close>

definition K8sDeployment_init ::
    "(string \<Rightarrow> string) \<Rightarrow> string \<Rightarrow> int \<Rightarrow> string \<Rightarrow> string \<Rightarrow> string \<Rightarrow> int option
       \<Rightarrow> Namespace \<Rightarrow> Namespace \<Rightarrow> K8sDeployment" where
  "K8sDeployment_init to_dns_name nm hport ver ptype jname sid cargs dargs =
     \<lparr>name_dep = nm, dns_name = to_dns_name nm, head_port_in = hport, version = ver,
      pea_type = ptype, jina_pod_name = jname, shard_id_dep = sid, common_args = cargs,
      deployment_args = dargs, k8s_namespace_dep = k8s_namespace cargs,
      num_replicas = (case replicas dargs of None \<Rightarrow> 1 | Some r \<Rightarrow> r),
      cluster_address = None\<rparr>"

subsubsection \<open>The polling loop\<close>

text \<open>
  What one pass through the \<^verbatim>\<open>try\<close> block does: \<^verbatim>\<open>return\<close> (\<open>Ready\<close>), fall through to
  the sleep (\<open>NotReady\<close>), or catch an \<^verbatim>\<open>ApiException\<close> and \<^verbatim>\<open>break\<close> (\<open>Failed\<close>).
\<close>

datatype check = Ready | NotReady | Failed string

text \<open>
  How the \<^verbatim>\<open>while\<close> loop is left: by the \<^verbatim>\<open>return\<close> inside it, or to the statements after
  it with the value of \<^verbatim>\<open>exception_to_raise\<close>.
\<close>

datatype loop_exit = Success | Exit "string option"

text \<open>
  Lines 189-193 and 201. For a positive \<^verbatim>\<open>timeout_ready\<close> Python holds the deadline as the
  float \<^verbatim>\<open>1000000000 * (timeout_ready / 1e3)\<close>: the integer is converted to a float,
  divided by the float \<^verbatim>\<open>1e3\<close> and multiplied by the float of \<^verbatim>\<open>1000000000\<close>, each step
  rounded to the nearest float, ties to the even mantissa. A positive float is modelled
  as a pair \<open>(m, e)\<close> of integers standing for \<open>m * 2 ^ e\<close>, with a mantissa of 53 bits;
  the range of the exponent is not bounded, so that the model is Python's for a
  \<^verbatim>\<open>timeout_ready\<close> below 10 to the 300 only; beyond, Python's float overflows.
\<close>

text \<open>\<^verbatim>\<open>int.bit_length\<close>\<close>

fun bit_length :: "nat \<Rightarrow> nat" where
  "bit_length n = (if n = 0 then 0 else Suc (bit_length (n div 2)))"

declare bit_length.simps [simp del]

text \<open>The integer nearest to \<open>p / q\<close>, the even one of two that are as near.\<close>

definition round_half_even :: "int \<Rightarrow> int \<Rightarrow> int" where
  "round_half_even p q =
     (let d = p div q; r = p mod q
      in if 2 * r < q then d else if q < 2 * r then d + 1 else if even d then d else d + 1)"

text \<open>The fraction \<open>p / q\<close> divided by \<open>2 ^ e\<close>, as a fraction.\<close>

definition scaled :: "int \<Rightarrow> int \<Rightarrow> int \<Rightarrow> int \<times> int" where
  "scaled p q e = (if 0 \<le> e then (p, q * 2 ^ nat e) else (p * 2 ^ nat (- e), q))"

text \<open>The exponent of the leading bit of the positive fraction \<open>p / q\<close>.\<close>

definition ilog2 :: "int \<Rightarrow> int \<Rightarrow> int" where
  "ilog2 p q =
     (let k = int (bit_length (nat p)) - int (bit_length (nat q))
      in case scaled p q k of (p', q') \<Rightarrow> if q' \<le> p' then k else k - 1)"

text \<open>The float nearest to the positive fraction \<open>p / q\<close>.\<close>

definition nearest_float :: "int \<Rightarrow> int \<Rightarrow> int \<times> int" where
  "nearest_float p q =
     (let e = ilog2 p q - 52
      in case scaled p q e of (p', q') \<Rightarrow> (round_half_even p' q', e))"

definition fraction_of :: "int \<times> int \<Rightarrow> int \<times> int" where
  "fraction_of f = (case f of (m, e) \<Rightarrow> scaled m 1 (- e))"

definition float_of_int :: "int \<Rightarrow> int \<times> int" where
  "float_of_int t = nearest_float t 1"

text \<open>A float divided by, and multiplied with, an integer that is a float itself.\<close>

definition float_div :: "int \<times> int \<Rightarrow> int \<Rightarrow> int \<times> int" where
  "float_div f d = (case fraction_of f of (p, q) \<Rightarrow> nearest_float p (q * d))"

definition float_mul :: "int \<Rightarrow> int \<times> int \<Rightarrow> int \<times> int" where
  "float_mul c f = (case fraction_of f of (p, q) \<Rightarrow> nearest_float (c * p) q)"

definition ceiling_float :: "int \<times> int \<Rightarrow> int" where
  "ceiling_float f = (case fraction_of f of (p, q) \<Rightarrow> - ((- p) div q))"

text \<open>
  The loop compares the elapsed nanoseconds, an integer \<open>n\<close>, with the float deadline
  \<open>x\<close>, which Python does exactly; \<open>n < x\<close> holds if and only if \<open>n\<close> is less than the
  least integer not below \<open>x\<close>, and this integer is what the model keeps as
  \<^verbatim>\<open>timeout_ns\<close>. For \<^verbatim>\<open>timeout_ready = 67\<close> the float is \<^verbatim>\<open>67000000.00000001\<close> and the
  integer 67000001.
\<close>

definition timeout_ns_of :: "int \<Rightarrow> int option" where
  "timeout_ns_of t =
     (if t \<le> 0 then None
      else Some (ceiling_float (float_mul 1000000000 (float_div (float_of_int t) 1000))))"

text \<open>
  The loop \<^verbatim>\<open>while timeout_ns is None or time.time_ns() - now < timeout_ns\<close>, written
  three times in the source (lines 204, 250, 317) around three different bodies. The
  clock is read only when there is a deadline. The first argument bounds the number of
  passes: \<open>None\<close> says that the loop is still running after that many.
\<close>

fun poll :: "nat \<Rightarrow> platform \<Rightarrow> (call list \<Rightarrow> check \<times> call list) \<Rightarrow> int option \<Rightarrow> int
               \<Rightarrow> call list \<Rightarrow> (loop_exit \<times> call list) option" where
  "poll 0 P body timeout_ns now hist = None"
| "poll (Suc fuel) P body timeout_ns now hist =
     (let (go, hist1) = (case timeout_ns of
                           None \<Rightarrow> (True, hist)
                         | Some t \<Rightarrow> (time_ns P hist - now < t, hist @ [TimeNs]))
      in if go
         then (case body hist1 of
                 (Ready, hist2) \<Rightarrow> Some (Success, hist2)
               | (NotReady, hist2) \<Rightarrow> poll fuel P body timeout_ns now (hist2 @ [Sleep])
               | (Failed ex, hist2) \<Rightarrow> Some (Exit (Some ex), hist2))
         else Some (Exit None, hist1))"

text \<open>Lines 223-226, 293-296, 350-353: the message of the failure raised after the loop.\<close>

definition fail_msg :: "string \<Rightarrow> K8sDeployment \<Rightarrow> string option \<Rightarrow> string" where
  "fail_msg verb d exception_to_raise =
     '' Deployment '' @ name_dep d @ '' did not '' @ verb @ '' with a timeout of ''
       @ str_int (timeout_ready (common_args d))
       @ (case exception_to_raise of None \<Rightarrow> [] | Some ex \<Rightarrow> '': '' @ ex)"

definition after_loop :: "string \<Rightarrow> K8sDeployment \<Rightarrow> (loop_exit \<times> call list) option
                            \<Rightarrow> ((exn + unit) \<times> call list) option" where
  "after_loop verb d r =
     (case r of
        None \<Rightarrow> None
      | Some (Success, hist) \<Rightarrow> Some (Inr (), hist)
      | Some (Exit ex, hist) \<Rightarrow> Some (Inl (RuntimeFailToStart (fail_msg verb d ex)), hist))"

subsubsection \<open>\<^verbatim>\<open>wait_start_success\<close>\<close>

definition start_check :: "platform \<Rightarrow> K8sDeployment \<Rightarrow> call list \<Rightarrow> check \<times> call list" where
  "start_check P d hist =
     (let hist1 = hist @ [ReadDeployment (dns_name d) (k8s_namespace_dep d)]
      in case read_namespaced_deployment P hist (dns_name d) (k8s_namespace_dep d) of
           Raises ex \<Rightarrow> (Failed ex, hist1)
         | Returns st \<Rightarrow>
             (if ready_replicas st \<noteq> None \<and> ready_replicas st = Some (num_replicas d)
              then (Ready, hist1) else (NotReady, hist1)))"

definition wait_start_success ::
    "platform \<Rightarrow> nat \<Rightarrow> K8sDeployment \<Rightarrow> call list \<Rightarrow> ((exn + unit) \<times> call list) option" where
  "wait_start_success P fuel d hist =
     after_loop ''start'' d
       (poll fuel P (start_check P d) (timeout_ns_of (timeout_ready (common_args d)))
          (time_ns P hist) (hist @ [TimeNs]))"

subsubsection \<open>\<^verbatim>\<open>wait_restart_success\<close>\<close>

text \<open>\<^verbatim>\<open>get_pod_uids\<close> (an \<^verbatim>\<open>ApiException\<close> of the listing propagates) and \<^verbatim>\<open>_has_pod_with_uid\<close>.\<close>

definition get_pod_uids :: "platform \<Rightarrow> K8sDeployment \<Rightarrow> call list \<Rightarrow> string list response \<times> call list" where
  "get_pod_uids P d hist =
     (list_namespaced_pod P hist (k8s_namespace_dep d) (''app='' @ dns_name d),
      hist @ [ListPods (k8s_namespace_dep d) (''app='' @ dns_name d)])"

definition has_pod_with_uid ::
    "platform \<Rightarrow> K8sDeployment \<Rightarrow> string list \<Rightarrow> call list \<Rightarrow> bool response \<times> call list" where
  "has_pod_with_uid P d uids hist =
     (case get_pod_uids P d hist of
        (Raises ex, hist1) \<Rightarrow> (Raises ex, hist1)
      | (Returns current_pods_uids, hist1) \<Rightarrow>
          (Returns (list_ex (\<lambda>uid. uid \<in> set current_pods_uids) uids), hist1))"

definition restart_check ::
    "platform \<Rightarrow> K8sDeployment \<Rightarrow> string list \<Rightarrow> call list \<Rightarrow> check \<times> call list" where
  "restart_check P d previous_uids hist =
     (let hist1 = hist @ [ReadDeployment (dns_name d) (k8s_namespace_dep d)]
      in case read_namespaced_deployment P hist (dns_name d) (k8s_namespace_dep d) of
           Raises ex \<Rightarrow> (Failed ex, hist1)
         | Returns st \<Rightarrow>
             (case has_pod_with_uid P d previous_uids hist1 of
                (Raises ex, hist2) \<Rightarrow> (Failed ex, hist2)
              | (Returns has, hist2) \<Rightarrow>
                  (if updated_replicas st \<noteq> None
                      \<and> updated_replicas st = Some (num_replicas d)
                      \<and> status_replicas st = Some (num_replicas d)
                      \<and> \<not> has
                   then (Ready, hist2) else (NotReady, hist2))))"

definition wait_restart_success ::
    "platform \<Rightarrow> nat \<Rightarrow> K8sDeployment \<Rightarrow> string list option \<Rightarrow> call list
       \<Rightarrow> ((exn + unit) \<times> call list) option" where
  "wait_restart_success P fuel d previous_uids hist =
     (let uids = (case previous_uids of None \<Rightarrow> [] | Some us \<Rightarrow> us)
      in after_loop ''restart'' d
           (poll fuel P (restart_check P d uids) (timeout_ns_of (timeout_ready (common_args d)))
              (time_ns P hist) (hist @ [TimeNs])))"

subsubsection \<open>\<^verbatim>\<open>wait_scale_success\<close>\<close>

definition scale_check :: "platform \<Rightarrow> K8sDeployment \<Rightarrow> int \<Rightarrow> call list \<Rightarrow> check \<times> call list" where
  "scale_check P d scale_to hist =
     (let hist1 = hist @ [ReadDeployment (dns_name d) (k8s_namespace_dep d)]
      in case read_namespaced_deployment P hist (dns_name d) (k8s_namespace_dep d) of
           Raises ex \<Rightarrow> (Failed ex, hist1)
         | Returns st \<Rightarrow>
             (if ready_replicas st \<noteq> None \<and> ready_replicas st = Some scale_to
              then (Ready, hist1) else (NotReady, hist1)))"

definition wait_scale_success ::
    "platform \<Rightarrow> nat \<Rightarrow> K8sDeployment \<Rightarrow> int \<Rightarrow> call list \<Rightarrow> ((exn + unit) \<times> call list) option" where
  "wait_scale_success P fuel d replicas_v hist =
     after_loop ''restart'' d
       (poll fuel P (scale_check P d replicas_v) (timeout_ns_of (timeout_ready (common_args d)))
          (time_ns P hist) (hist @ [TimeNs]))"

subsubsection \<open>Mutations of one deployment\<close>

text \<open>
  \<^verbatim>\<open>_deploy_gateway\<close> and \<^verbatim>\<open>_deploy_runtime\<close>: one call of \<^verbatim>\<open>deploy_service\<close>, whose
  result becomes the cluster address; an exception of the call propagates.
\<close>

definition deploy_gateway ::
    "platform \<Rightarrow> K8sDeployment \<Rightarrow> call list \<Rightarrow> (exn + unit) \<times> K8sDeployment \<times> call list" where
  "deploy_gateway P d hist =
     (let hist1 = hist @ [DeployService (dns_name d) (k8s_namespace_dep d) 1 False]
      in case deploy_service P hist (dns_name d) (k8s_namespace_dep d) 1 False of
           Raises ex \<Rightarrow> (Inl (ApiException ex), d, hist1)
         | Returns addr \<Rightarrow> (Inr (), d\<lparr>cluster_address := Some addr\<rparr>, hist1))"

definition deploy_runtime ::
    "platform \<Rightarrow> bool \<Rightarrow> K8sDeployment \<Rightarrow> call list \<Rightarrow> (exn + unit) \<times> K8sDeployment \<times> call list" where
  "deploy_runtime P replace d hist =
     (let hist1 = hist @ [DeployService (dns_name d) (k8s_namespace_dep d) (num_replicas d) replace]
      in case deploy_service P hist (dns_name d) (k8s_namespace_dep d) (num_replicas d) replace of
           Raises ex \<Rightarrow> (Inl (ApiException ex), d, hist1)
         | Returns addr \<Rightarrow> (Inr (), d\<lparr>cluster_address := Some addr\<rparr>, hist1))"




text \<open>\<^verbatim>\<open>_K8sDeployment.start\<close>, lines 378-387.\<close>

definition K8sDeployment_start ::
    "platform \<Rightarrow> nat \<Rightarrow> K8sDeployment \<Rightarrow> call list
       \<Rightarrow> ((exn + unit) \<times> K8sDeployment \<times> call list) option" where
  "K8sDeployment_start P fuel d hist =
     (case (if name_dep d = ''gateway'' then deploy_gateway P d hist
            else deploy_runtime P False d hist) of
        (Inl e, d1, hist1) \<Rightarrow> Some (Inl e, d1, hist1)
      | (Inr u, d1, hist1) \<Rightarrow>
          (if \<not> noblock_on_start (common_args d1)
           then (case wait_start_success P fuel d1 hist1 of
                   None \<Rightarrow> None
                 | Some (r, hist2) \<Rightarrow> Some (r, d1, hist2))
           else Some (Inr (), d1, hist1)))"

text \<open>
  \<^verbatim>\<open>_K8sDeployment.to_node\<close>, lines 452-457: the record of the handle in the topology, a
  dictionary of three entries; its \<^verbatim>\<open>head_host\<close> is the host the deployment answers to.
\<close>

record node =
  node_name :: string
  head_host :: string
  node_head_port_in :: int

definition K8sDeployment_to_node :: "K8sDeployment \<Rightarrow> node" where
  "K8sDeployment_to_node d =
     \<lparr>node_name = dns_name d,
      head_host = dns_name d @ ''.'' @ k8s_namespace_dep d @ ''.svc'',
      node_head_port_in = head_port_in d\<rparr>"

text \<open>
  \<^verbatim>\<open>_K8sDeployment.close\<close>: the deletion is issued; its status and its \<^verbatim>\<open>ApiException\<close> are
  only logged.
\<close>

definition K8sDeployment_close :: "platform \<Rightarrow> K8sDeployment \<Rightarrow> call list \<Rightarrow> call list" where
  "K8sDeployment_close P d hist = hist @ [DeleteDeployment (dns_name d) (k8s_namespace_dep d)]"

subsection \<open>The pod controller: \<^verbatim>\<open>K8sPod\<close>\<close>

text \<open>
  The handles are objects the controller and its stack of entered contexts both refer
  to; the stack holds references.
\<close>

datatype handle_ref = HeadRef | WorkerRef nat

record K8sPod =
  pod_args :: Namespace
  k8s_namespace_pod :: string
  needs :: "string set"
  deployment_args_pod :: parsed_args
  version_pod :: string
  k8s_head_deployment :: "K8sDeployment option"
  k8s_connection_pool_pod :: bool
  k8s_deployments :: "K8sDeployment list"
  entered :: "handle_ref list"

text \<open>
  \<^verbatim>\<open>K8sPod.__init__\<close>, lines 459-501. The version is what \<^verbatim>\<open>_get_base_executor_version\<close>
  reads from the registry, a parameter here. The partitioner runs first, and its
  exception leaves the constructor.
\<close>

definition K8sPod_init ::
    "(string \<Rightarrow> string) \<Rightarrow> K8sGrpcConnectionPool \<Rightarrow> string \<Rightarrow> Namespace \<Rightarrow> string set option
       \<Rightarrow> exn + K8sPod" where
  "K8sPod_init to_dns_name C ver a needs_v =
     (case parse_deployment_args C a of
        Inl e \<Rightarrow> Inl e
      | Inr pa \<Rightarrow>
          Inr \<lparr>pod_args = a, k8s_namespace_pod = k8s_namespace a,
               needs = (case needs_v of None \<Rightarrow> {} | Some n \<Rightarrow> n),
               deployment_args_pod = pa, version_pod = ver,
               k8s_head_deployment =
                 map_option (\<lambda>h. K8sDeployment_init to_dns_name (K8sPod_name a @ ''-head'')
                                   (K8S_PORT_IN C) ver ''head'' (K8sPod_name a) None a h)
                   (head_deployment pa),
               k8s_connection_pool_pod = k8s_connection_pool a,
               k8s_deployments =
                 map (\<lambda>(i, da). K8sDeployment_init to_dns_name
                                  (shard_name (K8sPod_name a) (length (deployments pa) > 1) (int i))
                                  (K8S_PORT_IN C) ver ''worker'' (K8sPod_name a) (Some (int i)) a da)
                   (enumerate 0 (deployments pa)),
               entered = []\<rparr>)"

subsubsection \<open>\<^verbatim>\<open>start\<close> and \<^verbatim>\<open>close\<close>\<close>

text \<open>
  Modelled from the spec: \<^verbatim>\<open>enter_context\<close> and \<^verbatim>\<open>close\<close> come from \<^verbatim>\<open>BasePod\<close>
  (\<^verbatim>\<open>jina/peapods/pods/__init__.py\<close>, not among the sources). By the spec \<^verbatim>\<open>start\<close> is a
  scoped acquisition whose release is \<^verbatim>\<open>close\<close>, and \<^verbatim>\<open>close\<close> deletes the head handle (if
  present), then the worker handles, deletion failures being logged only.
  \<^verbatim>\<open>enter_context\<close> is taken as Python's \<^verbatim>\<open>contextlib.ExitStack\<close> has it: entering a handle
  runs its \<^verbatim>\<open>__enter__\<close>, which is \<^verbatim>\<open>start\<close> (line 447), and registers the handle for
  \<^verbatim>\<open>close\<close> once \<^verbatim>\<open>__enter__\<close> has returned, so that a handle whose \<^verbatim>\<open>__enter__\<close> raises is
  not registered. \<^verbatim>\<open>close\<close> runs the \<^verbatim>\<open>__exit__\<close> (line 450) of every registered handle, here
  in the order the spec gives, head first; no property below depends on that order.
\<close>

definition enter_head ::
    "platform \<Rightarrow> nat \<Rightarrow> K8sPod \<Rightarrow> call list \<Rightarrow> ((exn + unit) \<times> K8sPod \<times> call list) option" where
  "enter_head P fuel pod hist =
     (case k8s_head_deployment pod of
        None \<Rightarrow> Some (Inr (), pod, hist)
      | Some h \<Rightarrow>
          (case K8sDeployment_start P fuel h hist of
             None \<Rightarrow> None
           | Some (Inl e, h1, hist1) \<Rightarrow> Some (Inl e, pod\<lparr>k8s_head_deployment := Some h1\<rparr>, hist1)
           | Some (Inr u, h1, hist1) \<Rightarrow>
               Some (Inr (), pod\<lparr>k8s_head_deployment := Some h1,
                                 entered := entered pod @ [HeadRef]\<rparr>, hist1)))"

fun enter_workers ::
    "platform \<Rightarrow> nat \<Rightarrow> nat list \<Rightarrow> K8sPod \<Rightarrow> call list
       \<Rightarrow> ((exn + unit) \<times> K8sPod \<times> call list) option" where
  "enter_workers P fuel [] pod hist = Some (Inr (), pod, hist)"
| "enter_workers P fuel (i # rest) pod hist =
     (case K8sDeployment_start P fuel (k8s_deployments pod ! i) hist of
        None \<Rightarrow> None
      | Some (Inl e, d1, hist1) \<Rightarrow>
          Some (Inl e, pod\<lparr>k8s_deployments := (k8s_deployments pod)[i := d1]\<rparr>, hist1)
      | Some (Inr u, d1, hist1) \<Rightarrow>
          enter_workers P fuel rest
            (pod\<lparr>k8s_deployments := (k8s_deployments pod)[i := d1],
                 entered := entered pod @ [WorkerRef i]\<rparr>) hist1)"

text \<open>\<^verbatim>\<open>K8sPod.start\<close>, lines 605-616: no \<^verbatim>\<open>try\<close> surrounds the two loops.\<close>

definition K8sPod_start ::
    "platform \<Rightarrow> nat \<Rightarrow> K8sPod \<Rightarrow> call list \<Rightarrow> ((exn + unit) \<times> K8sPod \<times> call list) option" where
  "K8sPod_start P fuel pod hist =
     (case enter_head P fuel pod hist of
        None \<Rightarrow> None
      | Some (Inl e, pod1, hist1) \<Rightarrow> Some (Inl e, pod1, hist1)
      | Some (Inr u, pod1, hist1) \<Rightarrow>
          enter_workers P fuel [0..<length (k8s_deployments pod1)] pod1 hist1)"

definition handle_of :: "K8sPod \<Rightarrow> handle_ref \<Rightarrow> K8sDeployment list" where
  "handle_of pod r =
     (case r of
        HeadRef \<Rightarrow> (case k8s_head_deployment pod of None \<Rightarrow> [] | Some h \<Rightarrow> [h])
      | WorkerRef i \<Rightarrow> (if i < length (k8s_deployments pod) then [k8s_deployments pod ! i] else []))"

fun close_all :: "platform \<Rightarrow> K8sDeployment list \<Rightarrow> call list \<Rightarrow> call list" where
  "close_all P [] hist = hist"
| "close_all P (d # ds) hist = close_all P ds (K8sDeployment_close P d hist)"

definition K8sPod_close :: "platform \<Rightarrow> K8sPod \<Rightarrow> call list \<Rightarrow> K8sPod \<times> call list" where
  "K8sPod_close P pod hist =
     (pod\<lparr>entered := []\<rparr>, close_all P (concat (map (handle_of pod) (entered pod))) hist)"

subsubsection \<open>\<^verbatim>\<open>wait_start_success\<close>\<close>

fun wait_start_all ::
    "platform \<Rightarrow> nat \<Rightarrow> K8sDeployment list \<Rightarrow> call list \<Rightarrow> ((exn + unit) \<times> call list) option" where
  "wait_start_all P fuel [] hist = Some (Inr (), hist)"
| "wait_start_all P fuel (p # ps) hist =
     (case wait_start_success P fuel p hist of
        None \<Rightarrow> None
      | Some (Inl e, hist1) \<Rightarrow> Some (Inl e, hist1)
      | Some (Inr u, hist1) \<Rightarrow> wait_start_all P fuel ps hist1)"

text \<open>
  \<^verbatim>\<open>K8sPod.wait_start_success\<close>, lines 618-631. The message of the \<^verbatim>\<open>ValueError\<close> starts
  with the \<^verbatim>\<open>repr\<close> of the bound method, left out here. A bare \<^verbatim>\<open>except\<close> catches the
  failure of any of the waits.
\<close>

definition K8sPod_wait_start_success ::
    "platform \<Rightarrow> nat \<Rightarrow> K8sPod \<Rightarrow> call list \<Rightarrow> ((exn + unit) \<times> K8sPod \<times> call list) option" where
  "K8sPod_wait_start_success P fuel pod hist =
     (if \<not> noblock_on_start (pod_args pod)
      then Some (Inl (ValueError '' should only be called when `noblock_on_start` is set to True''),
                 pod, hist)
      else
        (case wait_start_all P fuel
                (case k8s_head_deployment pod of None \<Rightarrow> [] | Some h \<Rightarrow> [h]) hist of
           None \<Rightarrow> None
         | Some (Inl e, hist1) \<Rightarrow>
             (case K8sPod_close P pod hist1 of (pod1, hist2) \<Rightarrow> Some (Inl e, pod1, hist2))
         | Some (Inr u, hist1) \<Rightarrow>
             (case wait_start_all P fuel (k8s_deployments pod) hist1 of
                None \<Rightarrow> None
              | Some (Inl e, hist2) \<Rightarrow>
                  (case K8sPod_close P pod hist2 of (pod1, hist3) \<Rightarrow> Some (Inl e, pod1, hist3))
              | Some (Inr u, hist2) \<Rightarrow> Some (Inr (), pod, hist2))))"

subsubsection \<open>\<^verbatim>\<open>rolling_update\<close>\<close>





subsubsection \<open>\<^verbatim>\<open>scale\<close>\<close>




section \<open>Vocabulary of the properties\<close>

subsection \<open>The static address table, as the spec describes it\<close>

text \<open>\<^verbatim>\<open>sep.join(xs)\<close>\<close>

fun join_py :: "string \<Rightarrow> string list \<Rightarrow> string" where
  "join_py sep [] = []"
| "join_py sep [x] = x"
| "join_py sep (x # y # ys) = x @ sep @ join_py sep (y # ys)"

text \<open>
  The table of the spec: shard index \<open>i\<close>, as a string, is mapped to the DNS name of
  worker \<open>i\<close>, which is the host its deployment answers to, followed by a colon and the
  head-in port.
\<close>

definition static_address_table :: "K8sDeployment list \<Rightarrow> (string \<times> string) list" where
  "static_address_table workers =
     map (\<lambda>(i, w). (str_int (int i),
                     head_host (K8sDeployment_to_node w) @ '':'' @ str_int (head_port_in w)))
       (enumerate 0 workers)"

text \<open>
  The table the loop of lines 526-531 writes, entry by entry: the host of shard \<open>i\<close> is
  made of the name computed at line 528.
\<close>

definition written_table :: "K8sGrpcConnectionPool \<Rightarrow> Namespace \<Rightarrow> (string \<times> string) list" where
  "written_table C args =
     map (\<lambda>i. (str_int i,
               shard_name (name args) (shards_of args > 1) i @ ''.'' @ k8s_namespace args @ ''.svc:''
                 @ str_int (K8S_PORT_IN C)))
       (range_py (shards_of args))"

text \<open>The table written as a JSON object, a comma and no space between two entries.\<close>

definition json_object :: "(string \<times> string) list \<Rightarrow> string" where
  "json_object kvs =
     ''{'' @ join_py '','' (map (\<lambda>(k, v). ''\"'' @ k @ ''\": \"'' @ v @ ''\"'') kvs) @ ''}''"

subsection \<open>Reading the log of calls\<close>

text \<open>The \<^verbatim>\<open>ApiException\<close> the platform answers a call with, if it does.\<close>

fun raises :: "platform \<Rightarrow> call list \<Rightarrow> call \<Rightarrow> string option" where
  "raises P h TimeNs = None"
| "raises P h Sleep = None"
| "raises P h (ReadDeployment n ns) =
     (case read_namespaced_deployment P h n ns of Raises e \<Rightarrow> Some e | Returns v \<Rightarrow> None)"
| "raises P h (ListPods ns sel) =
     (case list_namespaced_pod P h ns sel of Raises e \<Rightarrow> Some e | Returns v \<Rightarrow> None)"
| "raises P h (PatchScale n ns r) =
     (case patch_namespaced_deployment_scale P h n ns r of Raises e \<Rightarrow> Some e | Returns v \<Rightarrow> None)"
| "raises P h (DeleteDeployment n ns) =
     (case delete_namespaced_deployment P h n ns of Raises e \<Rightarrow> Some e | Returns v \<Rightarrow> None)"
| "raises P h (DeployService n ns r b) =
     (case deploy_service P h n ns r b of Raises e \<Rightarrow> Some e | Returns v \<Rightarrow> None)"

text \<open>The calls \<open>cs\<close>, issued one after the other from the log \<open>h\<close>, all return.\<close>

fun quiet :: "platform \<Rightarrow> call list \<Rightarrow> call list \<Rightarrow> bool" where
  "quiet P h [] = True"
| "quiet P h (c # cs) = (raises P h c = None \<and> quiet P (h @ [c]) cs)"

text \<open>The calls a wait on the deployment \<open>d\<close> can issue besides the clock and the sleep.\<close>

definition polls :: "K8sDeployment \<Rightarrow> call \<Rightarrow> bool" where
  "polls d c \<longleftrightarrow> c = ReadDeployment (dns_name d) (k8s_namespace_dep d)
                \<or> c = ListPods (k8s_namespace_dep d) (''app='' @ dns_name d)"

definition wait_call :: "K8sDeployment list \<Rightarrow> call \<Rightarrow> bool" where
  "wait_call ds c \<longleftrightarrow> c = TimeNs \<or> c = Sleep \<or> list_ex (\<lambda>d. polls d c) ds"




fun is_delete :: "call \<Rightarrow> bool" where
  "is_delete (DeleteDeployment n ns) = True"
| "is_delete c = False"


text \<open>
  A clock that no call turns back and that a sleep of one second advances by at least
  one second.
\<close>

definition clock_advances :: "platform \<Rightarrow> bool" where
  "clock_advances P \<longleftrightarrow>
     (\<forall>h c. time_ns P h + (if c = Sleep then 1000000000 else 0) \<le> time_ns P (h @ [c]))"

subsection \<open>How a wait ends\<close>

text \<open>
  What every loop body does to the log: it appends calls that all return, then a last
  call, other than a clock reading, which raises exactly when the body caught an
  \<^verbatim>\<open>ApiException\<close>.
\<close>

definition check_trace :: "platform \<Rightarrow> (call list \<Rightarrow> check \<times> call list) \<Rightarrow> bool" where
  "check_trace P body \<longleftrightarrow>
     (\<forall>h chk h'. body h = (chk, h') \<longrightarrow>
        (\<exists>cs c. h' = h @ cs @ [c] \<and> quiet P h cs \<and> c \<noteq> TimeNs
           \<and> raises P (h @ cs) c = (case chk of Failed e \<Rightarrow> Some e | _ \<Rightarrow> None)))"

text \<open>The two calls a check of a wait issues.\<close>

definition read_call :: "K8sDeployment \<Rightarrow> call" where
  "read_call d = ReadDeployment (dns_name d) (k8s_namespace_dep d)"

definition list_call :: "K8sDeployment \<Rightarrow> call" where
  "list_call d = ListPods (k8s_namespace_dep d) (''app='' @ dns_name d)"

text \<open>
  The conditions the waits wait for, in the words of the spec, as a check that starts at
  the log \<open>h\<close> finds them in the answers of the platform. For the start and the scaling:
  the ready replicas are as many as desired, or as the target. For the restart: the
  updated replicas and the replicas in total are as many as desired, and none of the pods
  listed is among the previous UIDs. A check one of whose calls raises has not found the
  condition.
\<close>

definition ready_observed :: "platform \<Rightarrow> K8sDeployment \<Rightarrow> int \<Rightarrow> call list \<Rightarrow> bool" where
  "ready_observed P d target h \<longleftrightarrow>
     (case read_namespaced_deployment P h (dns_name d) (k8s_namespace_dep d) of
        Raises e \<Rightarrow> False
      | Returns st \<Rightarrow> ready_replicas st = Some target)"

definition restarted_observed :: "platform \<Rightarrow> K8sDeployment \<Rightarrow> string list \<Rightarrow> call list \<Rightarrow> bool" where
  "restarted_observed P d uids h \<longleftrightarrow>
     (case read_namespaced_deployment P h (dns_name d) (k8s_namespace_dep d) of
        Raises e \<Rightarrow> False
      | Returns st \<Rightarrow>
          (case list_namespaced_pod P (h @ [read_call d]) (k8s_namespace_dep d)
                  (''app='' @ dns_name d) of
             Raises e \<Rightarrow> False
           | Returns pods \<Rightarrow>
               updated_replicas st = Some (num_replicas d)
             \<and> status_replicas st = Some (num_replicas d)
             \<and> set pods \<inter> set uids = {}))"

text \<open>
  The log of a wait. With a deadline, a pass through the loop starts with a clock
  reading, and the wait goes on if the time elapsed since \<open>now\<close> is less than the
  deadline. A pass that leads to the next one is this reading, the calls \<open>obs\<close> of the
  check and the sleep; \<open>after_passes h tn obs i\<close> is the log \<open>h\<close> followed by \<open>i\<close>
  such passes.
\<close>

definition clock_calls :: "int option \<Rightarrow> call list" where
  "clock_calls tn = (case tn of None \<Rightarrow> [] | Some t \<Rightarrow> [TimeNs])"

definition in_time :: "platform \<Rightarrow> int option \<Rightarrow> int \<Rightarrow> call list \<Rightarrow> bool" where
  "in_time P tn now h \<longleftrightarrow> (case tn of None \<Rightarrow> True | Some t \<Rightarrow> time_ns P h - now < t)"

definition pass_calls :: "int option \<Rightarrow> call list \<Rightarrow> call list" where
  "pass_calls tn obs = clock_calls tn @ obs @ [Sleep]"

definition after_passes :: "call list \<Rightarrow> int option \<Rightarrow> call list \<Rightarrow> nat \<Rightarrow> call list" where
  "after_passes h tn obs i = h @ concat (replicate i (pass_calls tn obs))"

text \<open>
  The first \<open>k\<close> passes from the log \<open>h\<close> have each started before the deadline, made
  a check all of whose calls returned, and found the condition false.
\<close>

definition unmet_passes ::
    "platform \<Rightarrow> int option \<Rightarrow> int \<Rightarrow> call list \<Rightarrow> (call list \<Rightarrow> bool) \<Rightarrow> call list \<Rightarrow> nat \<Rightarrow> bool" where
  "unmet_passes P tn now obs cond h k \<longleftrightarrow>
     (\<forall>i<k. in_time P tn now (after_passes h tn obs i)
           \<and> quiet P (after_passes h tn obs i @ clock_calls tn) obs
           \<and> \<not> cond (after_passes h tn obs i @ clock_calls tn))"

text \<open>
  How the pass that starts at the log \<open>h\<close> leaves the loop, and with what log \<open>h'\<close>:
  by the \<^verbatim>\<open>return\<close>, the deadline not reached, the calls of the check all returned and
  the condition found true; by the loop's test, the clock reading being at or past the
  deadline; or by the \<^verbatim>\<open>break\<close>, the deadline not reached and one call of the check
  having raised \<open>e\<close>, which is then the last call of the log.
\<close>

definition last_pass ::
    "platform \<Rightarrow> int option \<Rightarrow> int \<Rightarrow> call list \<Rightarrow> (call list \<Rightarrow> bool) \<Rightarrow> call list
       \<Rightarrow> loop_exit \<Rightarrow> call list \<Rightarrow> bool" where
  "last_pass P tn now obs cond h ex h' \<longleftrightarrow>
     (case ex of
        Success \<Rightarrow>
          in_time P tn now h \<and> quiet P (h @ clock_calls tn) obs \<and> cond (h @ clock_calls tn)
        \<and> h' = h @ clock_calls tn @ obs
      | Exit None \<Rightarrow> \<not> in_time P tn now h \<and> h' = h @ [TimeNs]
      | Exit (Some e) \<Rightarrow>
          in_time P tn now h
        \<and> (\<exists>j<length obs. quiet P (h @ clock_calls tn) (take j obs)
               \<and> raises P (h @ clock_calls tn @ take j obs) (obs ! j) = Some e
               \<and> h' = h @ clock_calls tn @ take (Suc j) obs))"

text \<open>
  The outcome \<open>r\<close> and the log \<open>hist'\<close> of a wait on \<open>d\<close> started at the log \<open>hist\<close>,
  whose check issues the calls \<open>obs\<close> for the condition \<open>cond\<close>: after the clock reading
  that gives \<open>now\<close>, some number of passes that found the condition false, then a last
  pass; \<open>r\<close> is success if the last pass found the condition true, and otherwise the
  failure whose message names the deployment and \<^verbatim>\<open>timeout_ready\<close>, followed by the
  exception if a call raised one.
\<close>

definition wait_ends ::
    "platform \<Rightarrow> K8sDeployment \<Rightarrow> string \<Rightarrow> call list \<Rightarrow> (call list \<Rightarrow> bool) \<Rightarrow> call list
       \<Rightarrow> exn + unit \<Rightarrow> call list \<Rightarrow> bool" where
  "wait_ends P d verb obs cond hist r hist' \<longleftrightarrow>
     (\<exists>k ex. unmet_passes P (timeout_ns_of (timeout_ready (common_args d))) (time_ns P hist)
                obs cond (hist @ [TimeNs]) k
           \<and> last_pass P (timeout_ns_of (timeout_ready (common_args d))) (time_ns P hist) obs cond
                (after_passes (hist @ [TimeNs]) (timeout_ns_of (timeout_ready (common_args d))) obs k)
                ex hist'
           \<and> r = (case ex of Success \<Rightarrow> Inr ()
                    | Exit e \<Rightarrow> Inl (RuntimeFailToStart (fail_msg verb d e))))"

subsection \<open>Concrete inputs\<close>

definition example_ports :: K8sGrpcConnectionPool where
  "example_ports = \<lparr>K8S_PORT_IN = 8081, K8S_PORT_USES_BEFORE = 8082, K8S_PORT_USES_AFTER = 8083\<rparr>"

definition example_args :: "string \<Rightarrow> int option \<Rightarrow> Namespace" where
  "example_args nm sh =
     \<lparr>name = nm, shards = sh, replicas = Some 3, uses_before = None, uses_after = None,
      k8s_connection_pool = True, k8s_namespace = ''ns'', timeout_ready = 2000,
      noblock_on_start = False, uses_with = None, dump_path = None, runtime_cls = None,
      pea_role = None, port_in = None, connection_list = None, uses_before_address = None,
      uses_after_address = None, shard_id = None\<rparr>"

text \<open>
  A platform whose clock shows one second per sleep issued so far, whose deployments and
  pod lists depend on the name asked for only, and whose mutations all succeed.
\<close>

definition example_platform ::
    "(string \<Rightarrow> V1DeploymentStatus response) \<Rightarrow> (string \<Rightarrow> string list response) \<Rightarrow> platform" where
  "example_platform rd lp =
     \<lparr>time_ns = (\<lambda>h. 1000000000 * int (count_list h Sleep)),
      read_namespaced_deployment = (\<lambda>h n ns. rd n),
      list_namespaced_pod = (\<lambda>h ns sel. lp sel),
      patch_namespaced_deployment_scale = (\<lambda>h n ns r. Returns ()),
      delete_namespaced_deployment = (\<lambda>h n ns. Returns ''Success''),
      deploy_service = (\<lambda>h n ns r b. Returns (n @ ''.'' @ ns @ ''.svc''))\<rparr>"

definition status_of :: "int \<Rightarrow> int \<Rightarrow> int \<Rightarrow> V1DeploymentStatus response" where
  "status_of r u t =
     Returns \<lparr>ready_replicas = Some r, updated_replicas = Some u, status_replicas = Some t\<rparr>"

text \<open>
  Modelled from the spec: \<^verbatim>\<open>kubernetes_deployment.to_dns_name\<close> is in \<^verbatim>\<open>k8slib\<close>, not
  among the sources; by the spec a deployment is identified by a DNS-safe name derived
  from its name. In this instance the upper-case letters are lowered and the underscore
  becomes a hyphen; a name made of lower-case letters, digits and hyphens is left as it
  is.
\<close>

definition example_to_dns_name :: "string \<Rightarrow> string" where
  "example_to_dns_name s =
     map (\<lambda>c. case map_of (zip ''ABCDEFGHIJKLMNOPQRSTUVWXYZ_'' ''abcdefghijklmnopqrstuvwxyz-'') c of
                None \<Rightarrow> c
              | Some l \<Rightarrow> l) s"

text \<open>
  The handles \<^verbatim>\<open>K8sPod.__init__\<close> builds from the argument bag \<open>a\<close>: the worker of shard
  \<open>i\<close> under the name \<open>nm\<close>, and the head.
\<close>

definition example_worker :: "Namespace \<Rightarrow> string \<Rightarrow> int \<Rightarrow> K8sDeployment" where
  "example_worker a nm i =
     K8sDeployment_init (\<lambda>s. s) nm (K8S_PORT_IN example_ports) ''master'' ''worker'' (name a)
       (Some i) a (cargs_of example_ports a i)"

definition example_head :: "Namespace \<Rightarrow> K8sDeployment" where
  "example_head a =
     K8sDeployment_init (\<lambda>s. s) (name a @ ''-head'') (K8S_PORT_IN example_ports) ''master'' ''head''
       (name a) None a (head_args_of example_ports a (shards_of a))"

text \<open>
  The controller of the pod \<^verbatim>\<open>enc\<close> with two shards of three replicas, blocking or not,
  before it is started.
\<close>

definition example_pod_args :: "bool \<Rightarrow> Namespace" where
  "example_pod_args noblock = (example_args ''enc'' (Some 2))\<lparr>noblock_on_start := noblock\<rparr>"

definition example_pod :: "bool \<Rightarrow> K8sPod" where
  "example_pod noblock =
     \<lparr>pod_args = example_pod_args noblock,
      k8s_namespace_pod = ''ns'', needs = {},
      deployment_args_pod =
        \<lparr>head_deployment = Some (head_args_of example_ports (example_pod_args noblock) 2),
         deployments = [cargs_of example_ports (example_pod_args noblock) 0,
                        cargs_of example_ports (example_pod_args noblock) 1]\<rparr>,
      version_pod = ''master'',
      k8s_head_deployment = Some (example_head (example_pod_args noblock)),
      k8s_connection_pool_pod = True,
      k8s_deployments = [example_worker (example_pod_args noblock) ''enc-0'' 0,
                         example_worker (example_pod_args noblock) ''enc-1'' 1],
      entered = []\<rparr>"

text \<open>
  A platform on which a rollout completes at once: the pods a selector lists are new as
  soon as a replacing \<^verbatim>\<open>deploy_service\<close> for its deployment is in the log.
\<close>

definition replaced :: "string \<Rightarrow> call \<Rightarrow> bool" where
  "replaced sel c = (case c of DeployService n ns r b \<Rightarrow> b \<and> ''app='' @ n = sel | _ \<Rightarrow> False)"

definition example_rollout :: platform where
  "example_rollout =
     (example_platform (\<lambda>n. status_of 3 3 3) (\<lambda>s. Returns []))
       \<lparr>list_namespaced_pod :=
          (\<lambda>h ns sel. Returns [if list_ex (replaced sel) h then sel @ ''-new'' else sel @ ''-old''])\<rparr>"

section \<open>Properties\<close>

subsection \<open>The partitioner\<close>

lemma length_range_py: "length (range_py n) = nat n"
  by (simp add: range_py_def)

lemma foldl_append_entries:
  "foldl (\<lambda>acc i. acc @ f i) a xs = a @ concat (map f xs)"
  by (induction xs arbitrary: a) simp_all

lemma butlast_entries:
  "xs \<noteq> [] \<Longrightarrow> butlast (concat (map (\<lambda>i. e i @ '','') xs)) = join_py '','' (map e xs)"
proof (induction xs rule: induct_list012)
  case 1 then show ?case by simp
next
  case (2 x) then show ?case by simp
next
  case (3 x y zs)
  then show ?case by (simp add: butlast_append)
qed

lemma range_py_2: "range_py 2 = [0, 1]"
  by (simp add: range_py_def upt_rec)

lemma str_int_0: "str_int 0 = ''0''"
  by (simp add: str_int_def str_nat.simps digit_char_def)

lemma str_int_1: "str_int 1 = ''1''"
  by (simp add: str_int_def str_nat.simps digit_char_def)

lemma connection_list_closed_form:
  assumes "1 \<le> shards_of args"
  shows "connection_list_of C args (shards_of args) = json_object (written_table C args)"
proof -
  let ?e = "\<lambda>i. ''\"'' @ str_int i @ ''\": \"'' @ shard_name (name args) (shards_of args > 1) i @ ''.''
       @ k8s_namespace args @ ''.svc:'' @ str_int (K8S_PORT_IN C) @ ''\"''"
  have ne: "range_py (shards_of args) \<noteq> []"
    using assms by (simp add: range_py_def)
  have ent: "connection_entry C args (shards_of args) = (\<lambda>i. ?e i @ '','')"
    by (rule ext) (simp add: connection_entry_def K8sPod_name_def)
  have "connection_list_of C args (shards_of args)
          = butlast (''{'' @ concat (map (\<lambda>i. ?e i @ '','') (range_py (shards_of args)))) @ ''}''"
    by (simp only: connection_list_of_def foldl_append_entries ent)
  also have "\<dots> = ''{'' @ butlast (concat (map (\<lambda>i. ?e i @ '','') (range_py (shards_of args)))) @ ''}''"
    using ne by (cases "range_py (shards_of args)") (simp_all add: butlast_append)
  also have "\<dots> = ''{'' @ join_py '','' (map ?e (range_py (shards_of args))) @ ''}''"
    using butlast_entries [OF ne, of ?e] by simp
  also have "\<dots> = json_object (written_table C args)"
    by (simp add: json_object_def written_table_def comp_def)
  finally show ?thesis .
qed

text \<open>
  C9. A gateway argument bag that configures a uses-before or a uses-after executor is
  not partitioned: the head slot is \<^verbatim>\<open>None\<close> for the gateway, and the assignment of the
  loopback address to it raises \<^verbatim>\<open>AttributeError\<close> (for the uses-before address first,
  when both are configured).
\<close>

theorem gateway_uses_raises:
  assumes "name args = ''gateway''" and "truthy (uses_before args) \<or> truthy (uses_after args)"
  shows "parse_deployment_args C args =
           Inl (AttributeError (if truthy (uses_before args) then ''uses_before_address''
                                else ''uses_after_address''))"
  using assms
  by (auto simp: parse_deployment_args_def Let_def set_uses_before_address_def set_uses_after_address_def)

theorem gateway_uses_raises_witness:
  "name ((example_args ''gateway'' (Some 1))\<lparr>uses_before := Some ''exec''\<rparr>) = ''gateway''
   \<and> truthy (uses_before ((example_args ''gateway'' (Some 1))\<lparr>uses_before := Some ''exec''\<rparr>))
   \<and> parse_deployment_args example_ports ((example_args ''gateway'' (Some 1))\<lparr>uses_before := Some ''exec''\<rparr>)
       = Inl (AttributeError ''uses_before_address'')"
proof -
  let ?a = "(example_args ''gateway'' (Some 1))\<lparr>uses_before := Some ''exec''\<rparr>"
  have h1: "name ?a = ''gateway''" by (simp add: example_args_def)
  have h2: "truthy (uses_before ?a)" by (simp add: truthy_def)
  show ?thesis using gateway_uses_raises [OF h1 disjI1 [OF h2], of example_ports] h1 h2 by simp
qed

text \<open>
  C4, as the code has it. A gateway argument bag without uses-before and uses-after
  yields no head and one deployment per configured shard, each with the role
  \<^verbatim>\<open>GATEWAY\<close> and its own shard index: one deployment exactly when the shard count is 1
  (or unset).
\<close>

theorem gateway_partition:
  assumes "name args = ''gateway''" and "\<not> truthy (uses_before args)" and "\<not> truthy (uses_after args)"
  shows "\<exists>ws. parse_deployment_args C args = Inr \<lparr>head_deployment = None, deployments = ws\<rparr>
            \<and> length ws = nat (shards_of args)
            \<and> map shard_id ws = map Some (range_py (shards_of args))
            \<and> (\<forall>w \<in> set ws. pea_role w = Some GATEWAY)
            \<and> (shards_of args = 1 \<longrightarrow> length ws = 1)"
  using assms
  by (auto simp: parse_deployment_args_def Let_def length_range_py cargs_of_def)

theorem gateway_partition_witness:
  "name (example_args ''gateway'' (Some 2)) = ''gateway''
   \<and> \<not> truthy (uses_before (example_args ''gateway'' (Some 2)))
   \<and> \<not> truthy (uses_after (example_args ''gateway'' (Some 2)))
   \<and> (\<exists>ws. parse_deployment_args example_ports (example_args ''gateway'' (Some 2))
              = Inr \<lparr>head_deployment = None, deployments = ws\<rparr> \<and> length ws = 2
            \<and> map pea_role ws = [Some GATEWAY, Some GATEWAY])
   \<and> shards_of (example_args ''gateway'' (Some 1)) = 1
   \<and> (\<exists>ws. parse_deployment_args example_ports (example_args ''gateway'' (Some 1))
              = Inr \<lparr>head_deployment = None, deployments = ws\<rparr> \<and> length ws = 1)"
proof -
  let ?a = "example_args ''gateway'' (Some 2)"
  let ?b = "example_args ''gateway'' (Some 1)"
  have h1: "name ?a = ''gateway''" "name ?b = ''gateway''" by (simp_all add: example_args_def)
  have h2: "\<not> truthy (uses_before ?a)" "\<not> truthy (uses_before ?b)"
    by (simp_all add: example_args_def truthy_def)
  have h3: "\<not> truthy (uses_after ?a)" "\<not> truthy (uses_after ?b)"
    by (simp_all add: example_args_def truthy_def)
  have s: "shards_of ?a = 2" "shards_of ?b = 1" by (simp_all add: example_args_def shards_of_def)
  from gateway_partition [OF h1(1) h2(1) h3(1), of example_ports] s(1)
  have a: "\<exists>ws. parse_deployment_args example_ports ?a
              = Inr \<lparr>head_deployment = None, deployments = ws\<rparr> \<and> length ws = 2
            \<and> map pea_role ws = [Some GATEWAY, Some GATEWAY]"
    by (auto simp: length_Suc_conv numeral_2_eq_2)
  from gateway_partition [OF h1(2) h2(2) h3(2), of example_ports] s(2)
  have b: "\<exists>ws. parse_deployment_args example_ports ?b
              = Inr \<lparr>head_deployment = None, deployments = ws\<rparr> \<and> length ws = 1"
    by auto
  from h1(1) h2(1) h3(1) a s(2) b show ?thesis by (intro conjI)
qed

text \<open>A gateway configured with two shards is partitioned into two deployments, not one.\<close>

theorem gateway_two_shards_counterexample:
  "parse_deployment_args example_ports (example_args ''gateway'' (Some 2))
     = Inr \<lparr>head_deployment = None,
            deployments = [cargs_of example_ports (example_args ''gateway'' (Some 2)) 0,
                           cargs_of example_ports (example_args ''gateway'' (Some 2)) 1]\<rparr>
   \<and> length (deployments (projr (parse_deployment_args example_ports
                                   (example_args ''gateway'' (Some 2))))) = 2"
  by (simp add: parse_deployment_args_def example_args_def shards_of_def truthy_def range_py_2)

text \<open>
  C5. For a shard count \<open>s \<ge> 1\<close>, a non-gateway argument bag yields \<open>s\<close> worker
  deployments whose shard indices are \<open>0, \<dots>, s - 1\<close> in this order, and one head
  deployment with one replica, the role \<^verbatim>\<open>HEAD\<close> and the head-in port.
\<close>

theorem non_gateway_partition:
  assumes "name args \<noteq> ''gateway''" and "shards_of args = s" and "1 \<le> s"
  shows "\<exists>h ws. parse_deployment_args C args = Inr \<lparr>head_deployment = Some h, deployments = ws\<rparr>
            \<and> length ws = nat s
            \<and> map shard_id ws = map Some (range_py s)
            \<and> replicas h = Some 1 \<and> pea_role h = Some HEAD \<and> port_in h = Some (K8S_PORT_IN C)"
  using assms
  by (auto simp: parse_deployment_args_def Let_def length_range_py cargs_of_def head_args_of_def
        set_uses_before_address_def set_uses_after_address_def)

theorem non_gateway_partition_witness:
  "name (example_args ''enc'' (Some 3)) \<noteq> ''gateway''
   \<and> shards_of (example_args ''enc'' (Some 3)) = 3 \<and> (1::int) \<le> 3
   \<and> (\<exists>h ws. parse_deployment_args example_ports (example_args ''enc'' (Some 3))
                = Inr \<lparr>head_deployment = Some h, deployments = ws\<rparr>
              \<and> map shard_id ws = [Some 0, Some 1, Some 2] \<and> replicas h = Some 1
              \<and> pea_role h = Some HEAD)"
proof -
  let ?a = "example_args ''enc'' (Some 3)"
  have h1: "name ?a \<noteq> ''gateway''" by (simp add: example_args_def)
  have h2: "shards_of ?a = 3" by (simp add: example_args_def shards_of_def)
  have h3: "(1::int) \<le> 3" by simp
  have r: "range_py 3 = [0, 1, 2]" by (simp add: range_py_def upt_rec)
  show ?thesis using non_gateway_partition [OF h1 h2 h3, of example_ports] h1 h2 r by auto
qed

lemma parse_deployments:
  "parse_deployment_args C a = Inr pa \<Longrightarrow> deployments pa = map (cargs_of C a) (range_py (shards_of a))"
  by (auto simp: parse_deployment_args_def Let_def split: sum.splits if_splits)

lemma map_enumerate_nth:
  "map (\<lambda>(i, x). f i x) (enumerate 0 xs) = map (\<lambda>i. f i (xs ! i)) [0..<length xs]"
  by (rule nth_equalityI) (simp_all add: nth_enumerate_eq)

subsection \<open>The polling loop\<close>

lemma quiet_append: "quiet P h (xs @ ys) \<longleftrightarrow> quiet P h xs \<and> quiet P (h @ xs) ys"
  by (induction xs arbitrary: h) simp_all

lemma poll_Suc_None:
  "poll (Suc fuel) P body None now h =
     (case body h of
        (Ready, h2) \<Rightarrow> Some (Success, h2)
      | (NotReady, h2) \<Rightarrow> poll fuel P body None now (h2 @ [Sleep])
      | (Failed ex, h2) \<Rightarrow> Some (Exit (Some ex), h2))"
  by simp

lemma poll_Suc_Some:
  "poll (Suc fuel) P body (Some t) now h =
     (if time_ns P h - now < t
      then (case body (h @ [TimeNs]) of
              (Ready, h2) \<Rightarrow> Some (Success, h2)
            | (NotReady, h2) \<Rightarrow> poll fuel P body (Some t) now (h2 @ [Sleep])
            | (Failed ex, h2) \<Rightarrow> Some (Exit (Some ex), h2))
      else Some (Exit None, h @ [TimeNs]))"
  by simp

lemma poll_Success:
  "poll fuel P body tn now h = Some (Success, h') \<Longrightarrow> \<exists>h1. body h1 = (Ready, h')"
proof (induction fuel arbitrary: h)
  case 0
  then show ?case by simp
next
  case (Suc fuel)
  show ?case
  proof (cases tn)
    case None
    with Suc.prems have *: "(case body h of
        (Ready, h2) \<Rightarrow> Some (Success, h2)
      | (NotReady, h2) \<Rightarrow> poll fuel P body None now (h2 @ [Sleep])
      | (Failed ex, h2) \<Rightarrow> Some (Exit (Some ex), h2)) = Some (Success, h')"
      by (simp only: poll_Suc_None)
    obtain chk h2 where b: "body h = (chk, h2)" by (cases "body h")
    show ?thesis
    proof (cases chk)
      case Ready
      with * b show ?thesis by auto
    next
      case NotReady
      with * b have "poll fuel P body tn now (h2 @ [Sleep]) = Some (Success, h')"
        using None by simp
      then show ?thesis by (rule Suc.IH)
    next
      case (Failed e)
      with * b show ?thesis by simp
    qed
  next
    case (Some t)
    with Suc.prems have *: "(if time_ns P h - now < t
      then (case body (h @ [TimeNs]) of
              (Ready, h2) \<Rightarrow> Some (Success, h2)
            | (NotReady, h2) \<Rightarrow> poll fuel P body (Some t) now (h2 @ [Sleep])
            | (Failed ex, h2) \<Rightarrow> Some (Exit (Some ex), h2))
      else Some (Exit None, h @ [TimeNs])) = Some (Success, h')"
      by (simp only: poll_Suc_Some)
    then have lt: "time_ns P h - now < t" by (simp split: if_splits)
    obtain chk h2 where b: "body (h @ [TimeNs]) = (chk, h2)" by (cases "body (h @ [TimeNs])")
    show ?thesis
    proof (cases chk)
      case Ready
      with * b lt show ?thesis by auto
    next
      case NotReady
      with * b lt have "poll fuel P body tn now (h2 @ [Sleep]) = Some (Success, h')"
        using Some by simp
      then show ?thesis by (rule Suc.IH)
    next
      case (Failed e)
      with * b lt show ?thesis by simp
    qed
  qed
qed

lemma start_check_trace: "check_trace P (start_check P d)"
  unfolding check_trace_def
proof (intro allI impI)
  fix h chk h'
  assume a: "start_check P d h = (chk, h')"
  let ?c = "ReadDeployment (dns_name d) (k8s_namespace_dep d)"
  from a have "h' = h @ [] @ [?c] \<and> quiet P h [] \<and> ?c \<noteq> TimeNs
       \<and> raises P (h @ []) ?c = (case chk of Failed e \<Rightarrow> Some e | _ \<Rightarrow> None)"
    by (auto simp: start_check_def Let_def split: response.splits if_splits)
  then show "\<exists>cs c. h' = h @ cs @ [c] \<and> quiet P h cs \<and> c \<noteq> TimeNs
       \<and> raises P (h @ cs) c = (case chk of Failed e \<Rightarrow> Some e | _ \<Rightarrow> None)"
    by blast
qed

lemma scale_check_trace: "check_trace P (scale_check P d n)"
  unfolding check_trace_def
proof (intro allI impI)
  fix h chk h'
  assume a: "scale_check P d n h = (chk, h')"
  let ?c = "ReadDeployment (dns_name d) (k8s_namespace_dep d)"
  from a have "h' = h @ [] @ [?c] \<and> quiet P h [] \<and> ?c \<noteq> TimeNs
       \<and> raises P (h @ []) ?c = (case chk of Failed e \<Rightarrow> Some e | _ \<Rightarrow> None)"
    by (auto simp: scale_check_def Let_def split: response.splits if_splits)
  then show "\<exists>cs c. h' = h @ cs @ [c] \<and> quiet P h cs \<and> c \<noteq> TimeNs
       \<and> raises P (h @ cs) c = (case chk of Failed e \<Rightarrow> Some e | _ \<Rightarrow> None)"
    by blast
qed

lemma restart_check_cases:
  assumes "restart_check P d uids h = (chk, h')"
  shows "(\<exists>e. read_namespaced_deployment P h (dns_name d) (k8s_namespace_dep d) = Raises e
            \<and> chk = Failed e \<and> h' = h @ [ReadDeployment (dns_name d) (k8s_namespace_dep d)])
       \<or> (\<exists>st res. read_namespaced_deployment P h (dns_name d) (k8s_namespace_dep d) = Returns st
            \<and> list_namespaced_pod P (h @ [ReadDeployment (dns_name d) (k8s_namespace_dep d)])
                  (k8s_namespace_dep d) (''app='' @ dns_name d) = res
            \<and> h' = h @ [ReadDeployment (dns_name d) (k8s_namespace_dep d),
                        ListPods (k8s_namespace_dep d) (''app='' @ dns_name d)]
            \<and> (case res of
                  Raises e \<Rightarrow> chk = Failed e
                | Returns current \<Rightarrow>
                    chk = (if updated_replicas st = Some (num_replicas d)
                              \<and> status_replicas st = Some (num_replicas d)
                              \<and> (\<forall>u \<in> set uids. u \<notin> set current)
                           then Ready else NotReady)))"
  using assms
  by (auto simp: restart_check_def has_pod_with_uid_def get_pod_uids_def Let_def list_ex_iff
           split: response.splits if_splits)

lemma restart_check_trace: "check_trace P (restart_check P d uids)"
  unfolding check_trace_def
proof (intro allI impI)
  fix h chk h'
  assume a: "restart_check P d uids h = (chk, h')"
  let ?r = "ReadDeployment (dns_name d) (k8s_namespace_dep d)"
  let ?l = "ListPods (k8s_namespace_dep d) (''app='' @ dns_name d)"
  from restart_check_cases [OF a]
  have "(h' = h @ [] @ [?r] \<and> quiet P h [] \<and> ?r \<noteq> TimeNs
           \<and> raises P (h @ []) ?r = (case chk of Failed e \<Rightarrow> Some e | _ \<Rightarrow> None))
      \<or> (h' = h @ [?r] @ [?l] \<and> quiet P h [?r] \<and> ?l \<noteq> TimeNs
           \<and> raises P (h @ [?r]) ?l = (case chk of Failed e \<Rightarrow> Some e | _ \<Rightarrow> None))"
    by (auto split: response.splits if_splits)
  then show "\<exists>cs c. h' = h @ cs @ [c] \<and> quiet P h cs \<and> c \<noteq> TimeNs
       \<and> raises P (h @ cs) c = (case chk of Failed e \<Rightarrow> Some e | _ \<Rightarrow> None)"
    by blast
qed

lemma time_mono:
  assumes "clock_advances P"
  shows "time_ns P h \<le> time_ns P (h @ cs)"
proof (induction cs rule: rev_induct)
  case Nil
  show ?case by simp
next
  case (snoc c cs)
  from assms
  have "time_ns P (h @ cs) + (if c = Sleep then 1000000000 else 0) \<le> time_ns P ((h @ cs) @ [c])"
    unfolding clock_advances_def by blast
  then have "time_ns P (h @ cs) \<le> time_ns P ((h @ cs) @ [c])"
    by (simp split: if_splits)
  with snoc show ?case by simp
qed

lemma time_sleep:
  assumes "clock_advances P"
  shows "time_ns P h + 1000000000 \<le> time_ns P (h @ [Sleep])"
proof -
  from assms
  have "time_ns P h + (if Sleep = Sleep then 1000000000 else 0) \<le> time_ns P (h @ [Sleep])"
    unfolding clock_advances_def by blast
  then show ?thesis by simp
qed

lemma poll_terminates:
  assumes ca: "clock_advances P" and bt: "check_trace P body"
  shows "0 < fuel \<Longrightarrow> T - (time_ns P h - now) \<le> (int fuel - 1) * 1000000000
           \<Longrightarrow> poll fuel P body (Some T) now h \<noteq> None"
proof (induction fuel arbitrary: h)
  case 0
  then show ?case by simp
next
  case (Suc fuel)
  show ?case
  proof (cases "time_ns P h - now < T")
    case False
    then show ?thesis by (simp only: poll_Suc_Some) simp
  next
    case True
    obtain chk h2 where b: "body (h @ [TimeNs]) = (chk, h2)" by (cases "body (h @ [TimeNs])")
    with bt obtain cs c where c: "h2 = (h @ [TimeNs]) @ cs @ [c]"
      unfolding check_trace_def by blast
    show ?thesis
    proof (cases chk)
      case NotReady
      have "time_ns P h \<le> time_ns P h2"
        using time_mono [OF ca, of h "[TimeNs] @ cs @ [c]"] c by simp
      with time_sleep [OF ca, of h2]
      have adv: "time_ns P h + 1000000000 \<le> time_ns P (h2 @ [Sleep])" by linarith
      from True Suc.prems have pos: "0 < fuel" by (cases fuel) auto
      have "T - (time_ns P (h2 @ [Sleep]) - now) \<le> (int fuel - 1) * 1000000000"
        using adv Suc.prems(2) by (simp add: algebra_simps)
      from Suc.IH [OF pos this] show ?thesis
        using True b NotReady by (simp only: poll_Suc_Some) simp
    qed (use True b in \<open>simp_all only: poll_Suc_Some, simp_all\<close>)
  qed
qed

lemma deadline_bound: "(T::int) \<le> 1000000000 * (T div 1000000000 + 1)"
proof -
  define q where "q = T div 1000000000"
  define m where "m = T mod 1000000000"
  have "T = 1000000000 * q + m" "m < 1000000000" unfolding q_def m_def by simp_all
  then show ?thesis unfolding q_def [symmetric] by simp
qed

lemma after_loop_returns:
  assumes ca: "clock_advances P" and bt: "check_trace P body"
    and tn: "timeout_ns_of (timeout_ready (common_args d)) = Some T"
    and f: "nat (T div 1000000000) + 2 \<le> fuel"
  shows "after_loop verb d (poll fuel P body (timeout_ns_of (timeout_ready (common_args d)))
              (time_ns P hist) (hist @ [TimeNs])) \<noteq> None"
proof -
  have e0: "time_ns P hist \<le> time_ns P (hist @ [TimeNs])" by (rule time_mono [OF ca])
  define q where "q = T div 1000000000 + 1"
  have s1: "T \<le> 1000000000 * q" unfolding q_def by (rule deadline_bound)
  have "q \<le> int fuel - 1" unfolding q_def using f by linarith
  then have s2: "1000000000 * q \<le> 1000000000 * (int fuel - 1)" by simp
  from s1 s2 have "T \<le> (int fuel - 1) * 1000000000" by (simp add: mult.commute)
  with e0 have b: "T - (time_ns P (hist @ [TimeNs]) - time_ns P hist)
                     \<le> (int fuel - 1) * 1000000000" by linarith
  from f have "0 < fuel" by simp
  from poll_terminates [OF ca bt this b] show ?thesis
    by (auto simp: after_loop_def tn split: option.splits loop_exit.splits)
qed

lemma after_passes_0 [simp]: "after_passes h tn obs 0 = h"
  by (simp add: after_passes_def)

lemma after_passes_Suc:
  "after_passes h tn obs (Suc i) = after_passes (h @ pass_calls tn obs) tn obs i"
  by (simp add: after_passes_def)

lemma unmet_passes_0 [simp]: "unmet_passes P tn now obs cond h 0"
  by (simp add: unmet_passes_def)

lemma unmet_passes_Suc:
  "unmet_passes P tn now obs cond h (Suc k) \<longleftrightarrow>
     in_time P tn now h \<and> quiet P (h @ clock_calls tn) obs \<and> \<not> cond (h @ clock_calls tn)
   \<and> unmet_passes P tn now obs cond (h @ pass_calls tn obs) k"
  by (simp add: unmet_passes_def All_less_Suc2 after_passes_Suc)

lemma poll_passes:
  assumes ready: "\<And>h. quiet P h obs \<Longrightarrow> cond h \<Longrightarrow> body h = (Ready, h @ obs)"
    and unmet: "\<And>h. quiet P h obs \<Longrightarrow> \<not> cond h \<Longrightarrow> body h = (NotReady, h @ obs)"
    and failed: "\<And>h. \<not> quiet P h obs \<Longrightarrow>
                   \<exists>e. \<exists>j<length obs. quiet P h (take j obs)
                         \<and> raises P (h @ take j obs) (obs ! j) = Some e
                         \<and> body h = (Failed e, h @ take (Suc j) obs)"
  shows "poll fuel P body tn now h = Some (ex, h') \<Longrightarrow>
           \<exists>k. unmet_passes P tn now obs cond h k
              \<and> last_pass P tn now obs cond (after_passes h tn obs k) ex h'"
proof (induction fuel arbitrary: h)
  case 0
  then show ?case by simp
next
  case (Suc fuel)
  let ?h1 = "h @ clock_calls tn"
  show ?case
  proof (cases "in_time P tn now h")
    case False
    then obtain t where t: "tn = Some t" "\<not> time_ns P h - now < t"
      by (auto simp: in_time_def split: option.splits)
    with Suc.prems have "ex = Exit None" "h' = h @ [TimeNs]"
      by (simp_all only: poll_Suc_Some, simp_all)
    with False have "last_pass P tn now obs cond (after_passes h tn obs 0) ex h'"
      by (simp add: last_pass_def)
    then show ?thesis using unmet_passes_0 by blast
  next
    case True
    from True Suc.prems have step:
      "(case body ?h1 of
          (Ready, h2) \<Rightarrow> Some (Success, h2)
        | (NotReady, h2) \<Rightarrow> poll fuel P body tn now (h2 @ [Sleep])
        | (Failed e, h2) \<Rightarrow> Some (Exit (Some e), h2)) = Some (ex, h')"
      by (cases tn) (auto simp: in_time_def clock_calls_def split: if_splits)
    show ?thesis
    proof (cases "quiet P ?h1 obs")
      case False
      from failed [OF False] obtain e j where j: "j < length obs" "quiet P ?h1 (take j obs)"
        "raises P (?h1 @ take j obs) (obs ! j) = Some e"
        "body ?h1 = (Failed e, ?h1 @ take (Suc j) obs)" by blast
      with step have "ex = Exit (Some e)" "h' = ?h1 @ take (Suc j) obs" by simp_all
      with True j have "last_pass P tn now obs cond (after_passes h tn obs 0) ex h'"
        by (auto simp: last_pass_def)
      then show ?thesis using unmet_passes_0 by blast
    next
      case q: True
      show ?thesis
      proof (cases "cond ?h1")
        case True
        from ready [OF q True] step have "ex = Success" "h' = ?h1 @ obs" by simp_all
        with \<open>in_time P tn now h\<close> q True
        have "last_pass P tn now obs cond (after_passes h tn obs 0) ex h'"
          by (simp add: last_pass_def)
        then show ?thesis using unmet_passes_0 by blast
      next
        case False
        from unmet [OF q False] step
        have "poll fuel P body tn now (h @ pass_calls tn obs) = Some (ex, h')"
          by (simp add: pass_calls_def)
        from Suc.IH [OF this] obtain k where
          k: "unmet_passes P tn now obs cond (h @ pass_calls tn obs) k"
             "last_pass P tn now obs cond (after_passes (h @ pass_calls tn obs) tn obs k) ex h'"
          by blast
        from k(1) \<open>in_time P tn now h\<close> q False
        have "unmet_passes P tn now obs cond h (Suc k)" by (simp add: unmet_passes_Suc)
        moreover from k(2) have "last_pass P tn now obs cond (after_passes h tn obs (Suc k)) ex h'"
          by (simp add: after_passes_Suc)
        ultimately show ?thesis by blast
      qed
    qed
  qed
qed

lemma after_loop_ends:
  assumes ready: "\<And>h. quiet P h obs \<Longrightarrow> cond h \<Longrightarrow> body h = (Ready, h @ obs)"
    and unmet: "\<And>h. quiet P h obs \<Longrightarrow> \<not> cond h \<Longrightarrow> body h = (NotReady, h @ obs)"
    and failed: "\<And>h. \<not> quiet P h obs \<Longrightarrow>
                   \<exists>e. \<exists>j<length obs. quiet P h (take j obs)
                         \<and> raises P (h @ take j obs) (obs ! j) = Some e
                         \<and> body h = (Failed e, h @ take (Suc j) obs)"
    and r: "after_loop verb d (poll fuel P body (timeout_ns_of (timeout_ready (common_args d)))
              (time_ns P hist) (hist @ [TimeNs])) = Some (r, hist')"
  shows "wait_ends P d verb obs cond hist r hist'"
proof -
  from r obtain ex where p: "poll fuel P body (timeout_ns_of (timeout_ready (common_args d)))
              (time_ns P hist) (hist @ [TimeNs]) = Some (ex, hist')"
      and rr: "r = (case ex of Success \<Rightarrow> Inr () | Exit e \<Rightarrow> Inl (RuntimeFailToStart (fail_msg verb d e)))"
    by (auto simp: after_loop_def split: option.splits loop_exit.splits)
  from poll_passes [of P obs cond body, OF ready unmet failed p] rr
  show ?thesis unfolding wait_ends_def by blast
qed

lemma start_check_ready:
  "quiet P h [read_call d] \<Longrightarrow> ready_observed P d (num_replicas d) h
     \<Longrightarrow> start_check P d h = (Ready, h @ [read_call d])"
  by (auto simp: start_check_def read_call_def ready_observed_def Let_def split: response.splits)

lemma start_check_unmet:
  "quiet P h [read_call d] \<Longrightarrow> \<not> ready_observed P d (num_replicas d) h
     \<Longrightarrow> start_check P d h = (NotReady, h @ [read_call d])"
  by (auto simp: start_check_def read_call_def ready_observed_def Let_def split: response.splits)

lemma start_check_failed:
  assumes "\<not> quiet P h [read_call d]"
  shows "\<exists>e. \<exists>j<length [read_call d]. quiet P h (take j [read_call d])
               \<and> raises P (h @ take j [read_call d]) ([read_call d] ! j) = Some e
               \<and> start_check P d h = (Failed e, h @ take (Suc j) [read_call d])"
proof -
  from assms obtain e where "read_namespaced_deployment P h (dns_name d) (k8s_namespace_dep d) = Raises e"
    by (auto simp: read_call_def split: response.splits)
  then have "quiet P h (take 0 [read_call d])
               \<and> raises P (h @ take 0 [read_call d]) ([read_call d] ! 0) = Some e
               \<and> start_check P d h = (Failed e, h @ take (Suc 0) [read_call d])"
    by (simp add: start_check_def read_call_def)
  then show ?thesis by (intro exI [of _ e] exI [of _ 0]) simp
qed

lemma scale_check_ready:
  "quiet P h [read_call d] \<Longrightarrow> ready_observed P d n h
     \<Longrightarrow> scale_check P d n h = (Ready, h @ [read_call d])"
  by (auto simp: scale_check_def read_call_def ready_observed_def Let_def split: response.splits)

lemma scale_check_unmet:
  "quiet P h [read_call d] \<Longrightarrow> \<not> ready_observed P d n h
     \<Longrightarrow> scale_check P d n h = (NotReady, h @ [read_call d])"
  by (auto simp: scale_check_def read_call_def ready_observed_def Let_def split: response.splits)

lemma scale_check_failed:
  assumes "\<not> quiet P h [read_call d]"
  shows "\<exists>e. \<exists>j<length [read_call d]. quiet P h (take j [read_call d])
               \<and> raises P (h @ take j [read_call d]) ([read_call d] ! j) = Some e
               \<and> scale_check P d n h = (Failed e, h @ take (Suc j) [read_call d])"
proof -
  from assms obtain e where "read_namespaced_deployment P h (dns_name d) (k8s_namespace_dep d) = Raises e"
    by (auto simp: read_call_def split: response.splits)
  then have "quiet P h (take 0 [read_call d])
               \<and> raises P (h @ take 0 [read_call d]) ([read_call d] ! 0) = Some e
               \<and> scale_check P d n h = (Failed e, h @ take (Suc 0) [read_call d])"
    by (simp add: scale_check_def read_call_def)
  then show ?thesis by (intro exI [of _ e] exI [of _ 0]) simp
qed

lemma restart_check_ready:
  "quiet P h [read_call d, list_call d] \<Longrightarrow> restarted_observed P d uids h
     \<Longrightarrow> restart_check P d uids h = (Ready, h @ [read_call d, list_call d])"
  by (auto simp: restart_check_def has_pod_with_uid_def get_pod_uids_def read_call_def list_call_def
        restarted_observed_def Let_def list_ex_iff split: response.splits)

lemma restart_check_unmet:
  "quiet P h [read_call d, list_call d] \<Longrightarrow> \<not> restarted_observed P d uids h
     \<Longrightarrow> restart_check P d uids h = (NotReady, h @ [read_call d, list_call d])"
  by (auto simp: restart_check_def has_pod_with_uid_def get_pod_uids_def read_call_def list_call_def
        restarted_observed_def Let_def list_ex_iff split: response.splits)

lemma restart_check_failed:
  assumes "\<not> quiet P h [read_call d, list_call d]"
  shows "\<exists>e. \<exists>j<length [read_call d, list_call d]. quiet P h (take j [read_call d, list_call d])
               \<and> raises P (h @ take j [read_call d, list_call d]) ([read_call d, list_call d] ! j) = Some e
               \<and> restart_check P d uids h = (Failed e, h @ take (Suc j) [read_call d, list_call d])"
proof (cases "read_namespaced_deployment P h (dns_name d) (k8s_namespace_dep d)")
  case (Raises e)
  then have "quiet P h (take 0 [read_call d, list_call d])
               \<and> raises P (h @ take 0 [read_call d, list_call d]) ([read_call d, list_call d] ! 0) = Some e
               \<and> restart_check P d uids h = (Failed e, h @ take (Suc 0) [read_call d, list_call d])"
    by (simp add: restart_check_def read_call_def)
  then show ?thesis by (intro exI [of _ e] exI [of _ 0]) simp
next
  case (Returns st)
  with assms obtain e where
    l: "list_namespaced_pod P (h @ [read_call d]) (k8s_namespace_dep d) (''app='' @ dns_name d) = Raises e"
    by (auto simp: read_call_def list_call_def split: response.splits)
  with Returns have "quiet P h (take 1 [read_call d, list_call d])
               \<and> raises P (h @ take 1 [read_call d, list_call d]) ([read_call d, list_call d] ! 1) = Some e
               \<and> restart_check P d uids h = (Failed e, h @ take (Suc 1) [read_call d, list_call d])"
    by (simp add: restart_check_def has_pod_with_uid_def get_pod_uids_def read_call_def list_call_def)
  then show ?thesis by (intro exI [of _ e] exI [of _ 1]) simp
qed

lemma after_loop_Success:
  "after_loop verb d p = Some (Inr (), hist') \<Longrightarrow> p = Some (Success, hist')"
  by (auto simp: after_loop_def split: option.splits loop_exit.splits)

lemma restart_check_Ready:
  assumes "restart_check P d uids h = (Ready, h')"
  shows "\<exists>st current.
           h' = h @ [ReadDeployment (dns_name d) (k8s_namespace_dep d),
                     ListPods (k8s_namespace_dep d) (''app='' @ dns_name d)]
         \<and> read_namespaced_deployment P h (dns_name d) (k8s_namespace_dep d) = Returns st
         \<and> list_namespaced_pod P (h @ [ReadDeployment (dns_name d) (k8s_namespace_dep d)])
               (k8s_namespace_dep d) (''app='' @ dns_name d) = Returns current
         \<and> updated_replicas st = Some (num_replicas d)
         \<and> status_replicas st = Some (num_replicas d)
         \<and> set current \<inter> set uids = {}"
  using assms
  by (auto simp: restart_check_def has_pod_with_uid_def get_pod_uids_def Let_def list_ex_iff
           split: response.splits if_splits)

subsection \<open>Evaluating the concrete inputs\<close>

lemma example_args_sel [simp]:
  "name (example_args nm sh) = nm"
  "shards (example_args nm sh) = sh"
  "replicas (example_args nm sh) = Some 3"
  "k8s_namespace (example_args nm sh) = ''ns''"
  "timeout_ready (example_args nm sh) = 2000"
  "noblock_on_start (example_args nm sh) = False"
  "k8s_connection_pool (example_args nm sh) = True"
  "uses_before (example_args nm sh) = None"
  "uses_after (example_args nm sh) = None"
  by (simp_all add: example_args_def)

lemma example_pod_args_sel [simp]:
  "name (example_pod_args b) = ''enc''"
  "shards (example_pod_args b) = Some 2"
  "replicas (example_pod_args b) = Some 3"
  "k8s_namespace (example_pod_args b) = ''ns''"
  "timeout_ready (example_pod_args b) = 2000"
  "noblock_on_start (example_pod_args b) = b"
  "k8s_connection_pool (example_pod_args b) = True"
  "uses_before (example_pod_args b) = None"
  "uses_after (example_pod_args b) = None"
  by (simp_all add: example_pod_args_def)

lemma example_worker_sel [simp]:
  "dns_name (example_worker a nm i) = nm"
  "name_dep (example_worker a nm i) = nm"
  "k8s_namespace_dep (example_worker a nm i) = k8s_namespace a"
  "num_replicas (example_worker a nm i) = (case replicas a of None \<Rightarrow> 1 | Some r \<Rightarrow> r)"
  "common_args (example_worker a nm i) = a"
  by (simp_all add: example_worker_def K8sDeployment_init_def cargs_of_def Let_def)

lemma example_head_sel [simp]:
  "dns_name (example_head a) = name a @ ''-head''"
  "name_dep (example_head a) = name a @ ''-head''"
  "k8s_namespace_dep (example_head a) = k8s_namespace a"
  "num_replicas (example_head a) = 1"
  "common_args (example_head a) = a"
  by (simp_all add: example_head_def K8sDeployment_init_def head_args_of_def Let_def)

text \<open>The example controller is the one the constructor builds.\<close>

lemma example_pod_built:
  "K8sPod_init (\<lambda>s. s) example_ports ''master'' (example_pod_args b) None = Inr (example_pod b)"
  by (simp add: K8sPod_init_def parse_deployment_args_def shards_of_def truthy_def range_py_2
        example_pod_def example_head_def example_worker_def K8sPod_name_def shard_name_def
        str_int_0 str_int_1 enumerate_eq_zip upt_rec)

lemma example_platform_sel [simp]:
  "time_ns (example_platform rd lp) h = 1000000000 * int (count_list h Sleep)"
  "read_namespaced_deployment (example_platform rd lp) h n ns = rd n"
  "list_namespaced_pod (example_platform rd lp) h ns sel = lp sel"
  "patch_namespaced_deployment_scale (example_platform rd lp) h n ns r = Returns ()"
  "delete_namespaced_deployment (example_platform rd lp) h n ns = Returns ''Success''"
  "deploy_service (example_platform rd lp) h n ns r b = Returns (n @ ''.'' @ ns @ ''.svc'')"
  by (simp_all add: example_platform_def)

lemmas float_defs = timeout_ns_of_def ceiling_float_def float_mul_def float_div_def
  float_of_int_def fraction_of_def nearest_float_def ilog2_def scaled_def round_half_even_def

lemma timeout_ns_2000: "timeout_ns_of 2000 = Some 2000000000"
  by (simp add: float_defs bit_length.simps Let_def)

lemma timeout_ns_67: "timeout_ns_of 67 = Some 67000001"
  by (simp add: float_defs bit_length.simps Let_def)

lemma str_int_2000: "str_int 2000 = ''2000''"
  by (simp add: str_int_def str_nat.simps digit_char_def)

lemma example_clock: "clock_advances (example_platform rd lp)"
  by (simp add: clock_advances_def)

subsection \<open>The static address table\<close>

text \<open>Without a shard the loop writes nothing, and the brace that is dropped is the opening one.\<close>

lemma connection_list_without_shards: "connection_list_of C args 0 = ''}''"
  by (simp add: connection_list_of_def range_py_def)

lemma init_workers:
  assumes "K8sPod_init to_dns_name C ver args needs_v = Inr pod"
  shows "k8s_deployments pod =
           map (\<lambda>i. K8sDeployment_init to_dns_name
                       (shard_name (name args) (1 < shards_of args) (int i))
                       (K8S_PORT_IN C) ver ''worker'' (name args) (Some (int i)) args
                       (cargs_of C args (int i)))
             [0..<nat (shards_of args)]"
proof -
  from assms obtain pa where pa: "parse_deployment_args C args = Inr pa"
    by (auto simp: K8sPod_init_def split: sum.splits)
  note dep = parse_deployments [OF pa]
  have len: "length (deployments pa) = nat (shards_of args)" by (simp add: dep length_range_py)
  have many: "(1 < length (deployments pa)) = (1 < shards_of args)" using len by auto
  from assms pa have ws: "k8s_deployments pod =
      map (\<lambda>(i, da). K8sDeployment_init to_dns_name
                                  (shard_name (K8sPod_name args) (length (deployments pa) > 1) (int i))
                                  (K8S_PORT_IN C) ver ''worker'' (K8sPod_name args) (Some (int i)) args da)
                   (enumerate 0 (deployments pa))"
    by (auto simp: K8sPod_init_def)
  show ?thesis
    unfolding ws map_enumerate_nth len
    by (rule map_cong) (simp_all add: K8sPod_name_def many dep range_py_def)
qed

lemma static_table_of_dns_safe_names:
  assumes init: "K8sPod_init to_dns_name C ver args needs_v = Inr pod"
    and safe: "\<forall>w\<in>set (k8s_deployments pod). dns_name w = name_dep w"
  shows "static_address_table (k8s_deployments pod) = written_table C args"
proof (rule nth_equalityI)
  note ws = init_workers [OF init]
  show len: "length (static_address_table (k8s_deployments pod)) = length (written_table C args)"
    by (simp add: static_address_table_def written_table_def ws range_py_def)
  fix i assume "i < length (static_address_table (k8s_deployments pod))"
  then have i: "i < nat (shards_of args)" by (simp add: static_address_table_def ws)
  let ?w = "k8s_deployments pod ! i"
  from i have w: "?w = K8sDeployment_init to_dns_name
                       (shard_name (name args) (1 < shards_of args) (int i))
                       (K8S_PORT_IN C) ver ''worker'' (name args) (Some (int i)) args
                       (cargs_of C args (int i))"
    by (simp add: ws)
  from i have "?w \<in> set (k8s_deployments pod)" by (simp add: ws)
  with safe have "dns_name ?w = name_dep ?w" by blast
  with w have dn: "dns_name ?w = shard_name (name args) (1 < shards_of args) (int i)"
    by (simp add: K8sDeployment_init_def)
  from w have rest: "k8s_namespace_dep ?w = k8s_namespace args" "head_port_in ?w = K8S_PORT_IN C"
    by (simp_all add: K8sDeployment_init_def)
  from i have "static_address_table (k8s_deployments pod) ! i
      = (str_int (int i), head_host (K8sDeployment_to_node ?w) @ '':'' @ str_int (head_port_in ?w))"
    by (simp add: static_address_table_def ws nth_enumerate_eq)
  also have "\<dots> = (str_int (int i), shard_name (name args) (1 < shards_of args) (int i) @ ''.''
                       @ k8s_namespace args @ ''.svc:'' @ str_int (K8S_PORT_IN C))"
    by (simp add: K8sDeployment_to_node_def dn rest)
  also from i have "\<dots> = written_table C args ! i"
    by (simp add: written_table_def range_py_def)
  finally show "static_address_table (k8s_deployments pod) ! i = written_table C args ! i" .
qed

text \<open>
  With the managed connection pool disabled, the head deployment of a non-gateway
  argument bag with at least one shard carries the table the loop writes, as a JSON
  object; it is the static address table of the workers when \<^verbatim>\<open>to_dns_name\<close> leaves
  their names as they are.
\<close>

lemma connection_list_attached:
  assumes "name args \<noteq> ''gateway''" and "\<not> k8s_connection_pool args" and "1 \<le> shards_of args"
  shows "\<exists>h ws. parse_deployment_args C args = Inr \<lparr>head_deployment = Some h, deployments = ws\<rparr>
            \<and> connection_list h = Some (json_object (written_table C args))"
  using assms connection_list_closed_form [OF assms(3), of C]
  by (auto simp: parse_deployment_args_def Let_def head_args_of_def
        set_uses_before_address_def set_uses_after_address_def)

lemma example_to_dns_name_My_Enc:
  "example_to_dns_name ''My_Enc-0'' = ''my-enc-0''"
  "example_to_dns_name ''My_Enc-1'' = ''my-enc-1''"
  "example_to_dns_name ''My_Enc-head'' = ''my-enc-head''"
  "example_to_dns_name ''enc-0'' = ''enc-0''"
  "example_to_dns_name ''enc-1'' = ''enc-1''"
  "example_to_dns_name ''enc-head'' = ''enc-head''"
  by (simp_all add: example_to_dns_name_def)

lemma str_int_8081: "str_int 8081 = ''8081''"
  by (simp add: str_int_def str_nat.simps digit_char_def)

text \<open>
  C6. The pod \<^verbatim>\<open>My_Enc\<close> with two shards in the namespace \<^verbatim>\<open>ns\<close>, the managed connection
  pool disabled, under a \<^verbatim>\<open>to_dns_name\<close> that returns DNS-safe names: the constructor
  builds the controller, the head deployment carries a table, and the hosts in the table
  are made of the names \<^verbatim>\<open>My_Enc-0\<close> and \<^verbatim>\<open>My_Enc-1\<close>, while the hosts the two worker
  deployments answer to, by \<^verbatim>\<open>to_node\<close>, are made of their DNS names \<^verbatim>\<open>my-enc-0\<close> and
  \<^verbatim>\<open>my-enc-1\<close>. The table carried is not the static address table of the workers.
\<close>

theorem static_address_table_misses_dns_names:
  "\<exists>pod h. K8sPod_init example_to_dns_name example_ports ''master''
               ((example_args ''My_Enc'' (Some 2))\<lparr>k8s_connection_pool := False\<rparr>) None = Inr pod
     \<and> head_deployment (deployment_args_pod pod) = Some h
     \<and> connection_list h = Some ''{\"0\": \"My_Enc-0.ns.svc:8081\",\"1\": \"My_Enc-1.ns.svc:8081\"}''
     \<and> map (head_host \<circ> K8sDeployment_to_node) (k8s_deployments pod)
         = [''my-enc-0.ns.svc'', ''my-enc-1.ns.svc'']
     \<and> json_object (static_address_table (k8s_deployments pod))
         = ''{\"0\": \"my-enc-0.ns.svc:8081\",\"1\": \"my-enc-1.ns.svc:8081\"}''
     \<and> connection_list h \<noteq> Some (json_object (static_address_table (k8s_deployments pod)))"
  by (simp add: K8sPod_init_def parse_deployment_args_def shards_of_def truthy_def range_py_2
        head_args_of_def connection_list_of_def connection_entry_def example_ports_def
        K8sPod_name_def shard_name_def str_int_0 str_int_1 str_int_8081 enumerate_eq_zip upt_rec
        K8sDeployment_init_def K8sDeployment_to_node_def example_to_dns_name_My_Enc
        static_address_table_def json_object_def cargs_of_def Let_def)

text \<open>The pod \<^verbatim>\<open>enc\<close> of the spec's example, whose names are DNS-safe as they are.\<close>

lemma static_address_table_enc:
  "\<exists>pod h. K8sPod_init example_to_dns_name example_ports ''master''
               ((example_args ''enc'' (Some 2))\<lparr>k8s_connection_pool := False\<rparr>) None = Inr pod
     \<and> head_deployment (deployment_args_pod pod) = Some h
     \<and> connection_list h = Some ''{\"0\": \"enc-0.ns.svc:8081\",\"1\": \"enc-1.ns.svc:8081\"}''
     \<and> connection_list h = Some (json_object (static_address_table (k8s_deployments pod)))"
  by (simp add: K8sPod_init_def parse_deployment_args_def shards_of_def truthy_def range_py_2
        head_args_of_def connection_list_of_def connection_entry_def example_ports_def
        K8sPod_name_def shard_name_def str_int_0 str_int_1 str_int_8081 enumerate_eq_zip upt_rec
        K8sDeployment_init_def K8sDeployment_to_node_def example_to_dns_name_My_Enc
        static_address_table_def json_object_def cargs_of_def Let_def)


subsection \<open>The waits of one deployment\<close>

text \<open>
  C1. When \<^verbatim>\<open>wait_restart_success\<close> returns, the last two calls it issued are a read of
  the deployment and a listing of its pods, and they answered: updated replicas not
  \<^verbatim>\<open>None\<close> and equal to the desired count, total replicas equal to the desired count, no
  listed pod UID in the snapshot. In particular, with desired = updated = total = 3 and
  one UID of the snapshot among the listed pods, the pass through the loop body reports
  not-ready and the loop goes on to the next pass after its sleep (without a deadline,
  and with a deadline not yet reached).
\<close>

theorem restart_success_only_when:
  "(wait_restart_success P fuel d previous_uids hist = Some (Inr (), hist') \<longrightarrow>
      (\<exists>h st current.
          hist' = h @ [ReadDeployment (dns_name d) (k8s_namespace_dep d),
                       ListPods (k8s_namespace_dep d) (''app='' @ dns_name d)]
        \<and> read_namespaced_deployment P h (dns_name d) (k8s_namespace_dep d) = Returns st
        \<and> list_namespaced_pod P (h @ [ReadDeployment (dns_name d) (k8s_namespace_dep d)])
              (k8s_namespace_dep d) (''app='' @ dns_name d) = Returns current
        \<and> updated_replicas st \<noteq> None
        \<and> updated_replicas st = Some (num_replicas d)
        \<and> status_replicas st = Some (num_replicas d)
        \<and> set current \<inter> set (case previous_uids of None \<Rightarrow> [] | Some us \<Rightarrow> us) = {}))
   \<and> (num_replicas d = 3
        \<and> read_namespaced_deployment P h1 (dns_name d) (k8s_namespace_dep d) = Returns st1
        \<and> updated_replicas st1 = Some 3 \<and> status_replicas st1 = Some 3
        \<and> list_namespaced_pod P (h1 @ [ReadDeployment (dns_name d) (k8s_namespace_dep d)])
              (k8s_namespace_dep d) (''app='' @ dns_name d) = Returns current1
        \<and> u \<in> set current1 \<and> u \<in> set snapshot \<longrightarrow>
          restart_check P d snapshot h1
            = (NotReady, h1 @ [ReadDeployment (dns_name d) (k8s_namespace_dep d),
                               ListPods (k8s_namespace_dep d) (''app='' @ dns_name d)])
        \<and> poll (Suc k) P (restart_check P d snapshot) None now h1
            = poll k P (restart_check P d snapshot) None now
                (h1 @ [ReadDeployment (dns_name d) (k8s_namespace_dep d),
                       ListPods (k8s_namespace_dep d) (''app='' @ dns_name d), Sleep])
        \<and> (\<forall>h0 t. h1 = h0 @ [TimeNs] \<and> time_ns P h0 - now < t \<longrightarrow>
              poll (Suc k) P (restart_check P d snapshot) (Some t) now h0
                = poll k P (restart_check P d snapshot) (Some t) now
                    (h1 @ [ReadDeployment (dns_name d) (k8s_namespace_dep d),
                           ListPods (k8s_namespace_dep d) (''app='' @ dns_name d), Sleep])))"
proof (intro conjI impI)
  let ?uids = "case previous_uids of None \<Rightarrow> [] | Some us \<Rightarrow> us"
  assume "wait_restart_success P fuel d previous_uids hist = Some (Inr (), hist')"
  then have "poll fuel P (restart_check P d ?uids) (timeout_ns_of (timeout_ready (common_args d)))
               (time_ns P hist) (hist @ [TimeNs]) = Some (Success, hist')"
    unfolding wait_restart_success_def Let_def by (rule after_loop_Success)
  then obtain h where "restart_check P d ?uids h = (Ready, hist')"
    using poll_Success by blast
  from restart_check_Ready [OF this]
  show "\<exists>h st current.
          hist' = h @ [ReadDeployment (dns_name d) (k8s_namespace_dep d),
                       ListPods (k8s_namespace_dep d) (''app='' @ dns_name d)]
        \<and> read_namespaced_deployment P h (dns_name d) (k8s_namespace_dep d) = Returns st
        \<and> list_namespaced_pod P (h @ [ReadDeployment (dns_name d) (k8s_namespace_dep d)])
              (k8s_namespace_dep d) (''app='' @ dns_name d) = Returns current
        \<and> updated_replicas st \<noteq> None
        \<and> updated_replicas st = Some (num_replicas d)
        \<and> status_replicas st = Some (num_replicas d)
        \<and> set current \<inter> set ?uids = {}"
    by fastforce
next
  assume a: "num_replicas d = 3
        \<and> read_namespaced_deployment P h1 (dns_name d) (k8s_namespace_dep d) = Returns st1
        \<and> updated_replicas st1 = Some 3 \<and> status_replicas st1 = Some 3
        \<and> list_namespaced_pod P (h1 @ [ReadDeployment (dns_name d) (k8s_namespace_dep d)])
              (k8s_namespace_dep d) (''app='' @ dns_name d) = Returns current1
        \<and> u \<in> set current1 \<and> u \<in> set snapshot"
  then have has: "list_ex (\<lambda>uid. uid \<in> set current1) snapshot"
    by (auto simp: list_ex_iff)
  from a has show chk: "restart_check P d snapshot h1
            = (NotReady, h1 @ [ReadDeployment (dns_name d) (k8s_namespace_dep d),
                               ListPods (k8s_namespace_dep d) (''app='' @ dns_name d)])"
    by (simp add: restart_check_def has_pod_with_uid_def get_pod_uids_def)
  then show "poll (Suc k) P (restart_check P d snapshot) None now h1
            = poll k P (restart_check P d snapshot) None now
                (h1 @ [ReadDeployment (dns_name d) (k8s_namespace_dep d),
                       ListPods (k8s_namespace_dep d) (''app='' @ dns_name d), Sleep])"
    by (simp only: poll_Suc_None) simp
  from chk show "\<forall>h0 t. h1 = h0 @ [TimeNs] \<and> time_ns P h0 - now < t \<longrightarrow>
              poll (Suc k) P (restart_check P d snapshot) (Some t) now h0
                = poll k P (restart_check P d snapshot) (Some t) now
                    (h1 @ [ReadDeployment (dns_name d) (k8s_namespace_dep d),
                           ListPods (k8s_namespace_dep d) (''app='' @ dns_name d), Sleep])"
    by (auto simp only: poll_Suc_Some) simp
qed

theorem restart_success_only_when_witness:
  "wait_restart_success
      (example_platform (\<lambda>n. status_of 3 3 3) (\<lambda>s. Returns [''new-1'', ''new-2'', ''new-3'']))
      1 (example_worker (example_args ''enc'' (Some 1)) ''enc'' 0) (Some [''old-1'', ''old-2'']) []
     = Some (Inr (), [TimeNs, TimeNs, ReadDeployment ''enc'' ''ns'', ListPods ''ns'' ''app=enc''])
   \<and> (\<exists>h st current.
          [TimeNs, TimeNs, ReadDeployment ''enc'' ''ns'', ListPods ''ns'' ''app=enc'']
            = h @ [ReadDeployment ''enc'' ''ns'', ListPods ''ns'' ''app=enc'']
        \<and> read_namespaced_deployment
              (example_platform (\<lambda>n. status_of 3 3 3) (\<lambda>s. Returns [''new-1'', ''new-2'', ''new-3'']))
              h ''enc'' ''ns'' = Returns st
        \<and> list_namespaced_pod
              (example_platform (\<lambda>n. status_of 3 3 3) (\<lambda>s. Returns [''new-1'', ''new-2'', ''new-3'']))
              (h @ [ReadDeployment ''enc'' ''ns'']) ''ns'' ''app=enc'' = Returns current
        \<and> updated_replicas st = Some 3 \<and> status_replicas st = Some 3
        \<and> set current \<inter> set [''old-1'', ''old-2''] = {})
   \<and> num_replicas (example_worker (example_args ''enc'' (Some 1)) ''enc'' 0) = 3
   \<and> ''old-2'' \<in> set [''new-1'', ''old-2'', ''new-3''] \<and> ''old-2'' \<in> set [''old-1'', ''old-2'']
   \<and> restart_check
        (example_platform (\<lambda>n. status_of 3 3 3) (\<lambda>s. Returns [''new-1'', ''old-2'', ''new-3'']))
        (example_worker (example_args ''enc'' (Some 1)) ''enc'' 0) [''old-1'', ''old-2''] [TimeNs, TimeNs]
       = (NotReady, [TimeNs, TimeNs, ReadDeployment ''enc'' ''ns'', ListPods ''ns'' ''app=enc''])
   \<and> poll 2 (example_platform (\<lambda>n. status_of 3 3 3) (\<lambda>s. Returns [''new-1'', ''old-2'', ''new-3'']))
        (restart_check
           (example_platform (\<lambda>n. status_of 3 3 3) (\<lambda>s. Returns [''new-1'', ''old-2'', ''new-3'']))
           (example_worker (example_args ''enc'' (Some 1)) ''enc'' 0) [''old-1'', ''old-2''])
        (Some 2000000000) 0 [TimeNs]
       = poll 1 (example_platform (\<lambda>n. status_of 3 3 3) (\<lambda>s. Returns [''new-1'', ''old-2'', ''new-3'']))
           (restart_check
              (example_platform (\<lambda>n. status_of 3 3 3) (\<lambda>s. Returns [''new-1'', ''old-2'', ''new-3'']))
              (example_worker (example_args ''enc'' (Some 1)) ''enc'' 0) [''old-1'', ''old-2''])
           (Some 2000000000) 0
           [TimeNs, TimeNs, ReadDeployment ''enc'' ''ns'', ListPods ''ns'' ''app=enc'', Sleep]"
proof -
  let ?fresh = "example_platform (\<lambda>n. status_of 3 3 3) (\<lambda>s. Returns [''new-1'', ''new-2'', ''new-3''])"
  let ?stale = "example_platform (\<lambda>n. status_of 3 3 3) (\<lambda>s. Returns [''new-1'', ''old-2'', ''new-3''])"
  let ?d = "example_worker (example_args ''enc'' (Some 1)) ''enc'' 0"
  let ?st = "\<lparr>ready_replicas = Some 3, updated_replicas = Some 3, status_replicas = Some 3\<rparr>"
  have a: "wait_restart_success ?fresh 1 ?d (Some [''old-1'', ''old-2'']) []
     = Some (Inr (), [TimeNs, TimeNs, ReadDeployment ''enc'' ''ns'', ListPods ''ns'' ''app=enc''])"
    by (simp add: wait_restart_success_def after_loop_def timeout_ns_2000
          restart_check_def has_pod_with_uid_def get_pod_uids_def status_of_def)
  from restart_success_only_when [where P = ?fresh and d = ?d and fuel = 1 and hist = "[]"
      and previous_uids = "Some [''old-1'', ''old-2'']"
      and hist' = "[TimeNs, TimeNs, ReadDeployment ''enc'' ''ns'', ListPods ''ns'' ''app=enc'']",
      THEN conjunct1, THEN mp, OF a]
  have b: "\<exists>h st current.
          [TimeNs, TimeNs, ReadDeployment ''enc'' ''ns'', ListPods ''ns'' ''app=enc'']
            = h @ [ReadDeployment ''enc'' ''ns'', ListPods ''ns'' ''app=enc'']
        \<and> read_namespaced_deployment ?fresh h ''enc'' ''ns'' = Returns st
        \<and> list_namespaced_pod ?fresh (h @ [ReadDeployment ''enc'' ''ns'']) ''ns'' ''app=enc''
            = Returns current
        \<and> updated_replicas st = Some 3 \<and> status_replicas st = Some 3
        \<and> set current \<inter> set [''old-1'', ''old-2''] = {}"
    by (simp del: example_platform_sel) blast
  have c: "num_replicas ?d = 3
        \<and> read_namespaced_deployment ?stale [TimeNs, TimeNs] (dns_name ?d) (k8s_namespace_dep ?d)
            = Returns ?st
        \<and> updated_replicas ?st = Some 3 \<and> status_replicas ?st = Some 3
        \<and> list_namespaced_pod ?stale
              ([TimeNs, TimeNs] @ [ReadDeployment (dns_name ?d) (k8s_namespace_dep ?d)])
              (k8s_namespace_dep ?d) (''app='' @ dns_name ?d) = Returns [''new-1'', ''old-2'', ''new-3'']
        \<and> ''old-2'' \<in> set [''new-1'', ''old-2'', ''new-3''] \<and> ''old-2'' \<in> set [''old-1'', ''old-2'']"
    by (simp add: status_of_def)
  note d = restart_success_only_when [where P = ?stale and d = ?d and ?h1.0 = "[TimeNs, TimeNs]"
      and ?st1.0 = ?st and ?current1.0 = "[''new-1'', ''old-2'', ''new-3'']" and u = "''old-2''"
      and snapshot = "[''old-1'', ''old-2'']" and k = 1 and now = 0,
      THEN conjunct2, THEN mp, OF c]
  from d have d1: "restart_check ?stale ?d [''old-1'', ''old-2''] [TimeNs, TimeNs]
       = (NotReady, [TimeNs, TimeNs, ReadDeployment ''enc'' ''ns'', ListPods ''ns'' ''app=enc''])"
    by simp
  from d have "\<forall>h0 t. [TimeNs, TimeNs] = h0 @ [TimeNs] \<and> time_ns ?stale h0 - 0 < t \<longrightarrow>
              poll (Suc 1) ?stale (restart_check ?stale ?d [''old-1'', ''old-2'']) (Some t) 0 h0
                = poll 1 ?stale (restart_check ?stale ?d [''old-1'', ''old-2'']) (Some t) 0
                    ([TimeNs, TimeNs] @ [ReadDeployment (dns_name ?d) (k8s_namespace_dep ?d),
                           ListPods (k8s_namespace_dep ?d) (''app='' @ dns_name ?d), Sleep])"
    by (elim conjE)
  from this [THEN spec, of "[TimeNs]", THEN spec, of 2000000000]
  have d2: "poll 2 ?stale (restart_check ?stale ?d [''old-1'', ''old-2'']) (Some 2000000000) 0 [TimeNs]
       = poll 1 ?stale (restart_check ?stale ?d [''old-1'', ''old-2'']) (Some 2000000000) 0
           [TimeNs, TimeNs, ReadDeployment ''enc'' ''ns'', ListPods ''ns'' ''app=enc'', Sleep]"
    by (simp add: numeral_2_eq_2)
  from a b d1 d2 show ?thesis by simp
qed

text \<open>
  C8, as the code has it. If one of the three waits returns, its log is a number of
  passes that each found the wait's condition false, followed by a last pass, and its
  outcome is decided there: success when the check of the last pass finds the condition
  true; the failure \<^verbatim>\<open>RuntimeFailToStart\<close> when the clock reading of the last pass is at or
  past the deadline, or when a call of its check raises, which is then the last call of
  the log. So a wait fails exactly when the deadline has elapsed without any of its
  checks having found the condition true, or when a platform call has raised. With a
  clock that advances, a deadline and enough passes allowed, each wait returns. The
  message of the failure is made of the deployment's name and \<^verbatim>\<open>timeout_ready\<close>,
  followed in the second case by the \<^verbatim>\<open>repr\<close> of the exception; no observed count is
  part of it.
\<close>

theorem wait_failure_classification:
  "(wait_start_success P fuel d hist = Some (r1, hist1) \<longrightarrow>
      wait_ends P d ''start'' [read_call d] (ready_observed P d (num_replicas d)) hist r1 hist1)
   \<and> (wait_restart_success P fuel d previous_uids hist = Some (r2, hist2) \<longrightarrow>
        wait_ends P d ''restart'' [read_call d, list_call d]
          (restarted_observed P d (case previous_uids of None \<Rightarrow> [] | Some us \<Rightarrow> us)) hist r2 hist2)
   \<and> (wait_scale_success P fuel d replicas_v hist = Some (r3, hist3) \<longrightarrow>
        wait_ends P d ''restart'' [read_call d] (ready_observed P d replicas_v) hist r3 hist3)
   \<and> (clock_advances P \<and> timeout_ns_of (timeout_ready (common_args d)) = Some T
        \<and> nat (T div 1000000000) + 2 \<le> fuel \<longrightarrow>
          wait_start_success P fuel d hist \<noteq> None
        \<and> wait_restart_success P fuel d previous_uids hist \<noteq> None
        \<and> wait_scale_success P fuel d replicas_v hist \<noteq> None)
   \<and> fail_msg verb d None
        = '' Deployment '' @ name_dep d @ '' did not '' @ verb @ '' with a timeout of ''
            @ str_int (timeout_ready (common_args d))
   \<and> fail_msg verb d (Some ex) = fail_msg verb d None @ '': '' @ ex"
proof (intro conjI impI)
  assume "wait_start_success P fuel d hist = Some (r1, hist1)"
  from this [unfolded wait_start_success_def]
  show "wait_ends P d ''start'' [read_call d] (ready_observed P d (num_replicas d)) hist r1 hist1"
    by (rule after_loop_ends [rotated 3])
       (rule start_check_ready start_check_unmet start_check_failed, assumption+)+
next
  assume "wait_restart_success P fuel d previous_uids hist = Some (r2, hist2)"
  from this [unfolded wait_restart_success_def Let_def]
  show "wait_ends P d ''restart'' [read_call d, list_call d]
          (restarted_observed P d (case previous_uids of None \<Rightarrow> [] | Some us \<Rightarrow> us)) hist r2 hist2"
    by (rule after_loop_ends [rotated 3])
       (rule restart_check_ready restart_check_unmet restart_check_failed, assumption+)+
next
  assume "wait_scale_success P fuel d replicas_v hist = Some (r3, hist3)"
  from this [unfolded wait_scale_success_def]
  show "wait_ends P d ''restart'' [read_call d] (ready_observed P d replicas_v) hist r3 hist3"
    by (rule after_loop_ends [rotated 3])
       (rule scale_check_ready scale_check_unmet scale_check_failed, assumption+)+
next
  assume a: "clock_advances P \<and> timeout_ns_of (timeout_ready (common_args d)) = Some T
        \<and> nat (T div 1000000000) + 2 \<le> fuel"
  then have ca: "clock_advances P" and t: "timeout_ns_of (timeout_ready (common_args d)) = Some T"
    and f: "nat (T div 1000000000) + 2 \<le> fuel" by simp_all
  show "wait_start_success P fuel d hist \<noteq> None"
    unfolding wait_start_success_def by (rule after_loop_returns [OF ca start_check_trace t f])
  show "wait_restart_success P fuel d previous_uids hist \<noteq> None"
    unfolding wait_restart_success_def Let_def
    by (rule after_loop_returns [OF ca restart_check_trace t f])
  show "wait_scale_success P fuel d replicas_v hist \<noteq> None"
    unfolding wait_scale_success_def by (rule after_loop_returns [OF ca scale_check_trace t f])
qed (simp_all add: fail_msg_def)


theorem wait_failure_classification_witness:
  "wait_start_success (example_platform (\<lambda>n. status_of 1 1 1) (\<lambda>s. Returns [])) 4
       (example_worker (example_args ''enc'' (Some 1)) ''enc'' 0) []
     = Some (Inl (RuntimeFailToStart '' Deployment enc did not start with a timeout of 2000''),
             [TimeNs, TimeNs, ReadDeployment ''enc'' ''ns'', Sleep,
              TimeNs, ReadDeployment ''enc'' ''ns'', Sleep, TimeNs])
   \<and> wait_ends (example_platform (\<lambda>n. status_of 1 1 1) (\<lambda>s. Returns []))
        (example_worker (example_args ''enc'' (Some 1)) ''enc'' 0) ''start''
        [ReadDeployment ''enc'' ''ns'']
        (ready_observed (example_platform (\<lambda>n. status_of 1 1 1) (\<lambda>s. Returns []))
           (example_worker (example_args ''enc'' (Some 1)) ''enc'' 0) 3)
        []
        (Inl (RuntimeFailToStart '' Deployment enc did not start with a timeout of 2000''))
        [TimeNs, TimeNs, ReadDeployment ''enc'' ''ns'', Sleep,
         TimeNs, ReadDeployment ''enc'' ''ns'', Sleep, TimeNs]
   \<and> wait_restart_success (example_platform (\<lambda>n. Raises ''ApiException(500)'') (\<lambda>s. Returns [])) 4
        (example_worker (example_args ''enc'' (Some 1)) ''enc'' 0) None []
     = Some (Inl (RuntimeFailToStart
                    '' Deployment enc did not restart with a timeout of 2000: ApiException(500)''),
             [TimeNs, TimeNs, ReadDeployment ''enc'' ''ns''])
   \<and> wait_ends (example_platform (\<lambda>n. Raises ''ApiException(500)'') (\<lambda>s. Returns []))
        (example_worker (example_args ''enc'' (Some 1)) ''enc'' 0) ''restart''
        [ReadDeployment ''enc'' ''ns'', ListPods ''ns'' ''app=enc'']
        (restarted_observed (example_platform (\<lambda>n. Raises ''ApiException(500)'') (\<lambda>s. Returns []))
           (example_worker (example_args ''enc'' (Some 1)) ''enc'' 0) [])
        []
        (Inl (RuntimeFailToStart
                '' Deployment enc did not restart with a timeout of 2000: ApiException(500)''))
        [TimeNs, TimeNs, ReadDeployment ''enc'' ''ns'']
   \<and> wait_scale_success (example_platform (\<lambda>n. status_of 5 5 5) (\<lambda>s. Returns [])) 4
        (example_worker (example_args ''enc'' (Some 1)) ''enc'' 0) 5 []
     = Some (Inr (), [TimeNs, TimeNs, ReadDeployment ''enc'' ''ns''])
   \<and> wait_ends (example_platform (\<lambda>n. status_of 5 5 5) (\<lambda>s. Returns []))
        (example_worker (example_args ''enc'' (Some 1)) ''enc'' 0) ''restart''
        [ReadDeployment ''enc'' ''ns'']
        (ready_observed (example_platform (\<lambda>n. status_of 5 5 5) (\<lambda>s. Returns []))
           (example_worker (example_args ''enc'' (Some 1)) ''enc'' 0) 5)
        [] (Inr ()) [TimeNs, TimeNs, ReadDeployment ''enc'' ''ns'']
   \<and> clock_advances (example_platform (\<lambda>n. status_of 1 1 1) (\<lambda>s. Returns []))
   \<and> timeout_ns_of (timeout_ready (common_args (example_worker (example_args ''enc'' (Some 1)) ''enc'' 0)))
       = Some 2000000000
   \<and> nat (2000000000 div 1000000000) + 2 \<le> (4::nat)
   \<and> wait_start_success (example_platform (\<lambda>n. status_of 1 1 1) (\<lambda>s. Returns [])) 4
        (example_worker (example_args ''enc'' (Some 1)) ''enc'' 0) [] \<noteq> None"
proof -
  let ?slow = "example_platform (\<lambda>n. status_of 1 1 1) (\<lambda>s. Returns [])"
  let ?err = "example_platform (\<lambda>n. Raises ''ApiException(500)'') (\<lambda>s. Returns [])"
  let ?ok = "example_platform (\<lambda>n. status_of 5 5 5) (\<lambda>s. Returns [])"
  let ?d = "example_worker (example_args ''enc'' (Some 1)) ''enc'' 0"
  have rc: "read_call ?d = ReadDeployment ''enc'' ''ns''"
    and lc: "list_call ?d = ListPods ''ns'' ''app=enc''"
    and nr: "num_replicas ?d = 3"
    by (simp_all add: read_call_def list_call_def)
  have a1: "wait_start_success ?slow 4 ?d []
     = Some (Inl (RuntimeFailToStart '' Deployment enc did not start with a timeout of 2000''),
             [TimeNs, TimeNs, ReadDeployment ''enc'' ''ns'', Sleep,
              TimeNs, ReadDeployment ''enc'' ''ns'', Sleep, TimeNs])"
    by (simp add: wait_start_success_def after_loop_def eval_nat_numeral timeout_ns_2000
          start_check_def status_of_def fail_msg_def str_int_2000)
  have a2: "wait_restart_success ?err 4 ?d None []
     = Some (Inl (RuntimeFailToStart
                    '' Deployment enc did not restart with a timeout of 2000: ApiException(500)''),
             [TimeNs, TimeNs, ReadDeployment ''enc'' ''ns''])"
    by (simp add: wait_restart_success_def after_loop_def eval_nat_numeral timeout_ns_2000
          restart_check_def fail_msg_def str_int_2000)
  have a3: "wait_scale_success ?ok 4 ?d 5 [] = Some (Inr (), [TimeNs, TimeNs, ReadDeployment ''enc'' ''ns''])"
    by (simp add: wait_scale_success_def after_loop_def eval_nat_numeral timeout_ns_2000
          scale_check_def status_of_def)
  have t: "timeout_ns_of (timeout_ready (common_args ?d)) = Some 2000000000"
    by (simp add: timeout_ns_2000)
  have f: "nat (2000000000 div 1000000000) + 2 \<le> (4::nat)" by simp
  have a4: "clock_advances ?slow \<and> timeout_ns_of (timeout_ready (common_args ?d)) = Some 2000000000
        \<and> nat (2000000000 div 1000000000) + 2 \<le> (4::nat)"
    using t f by (simp add: example_clock)
  note T1 = wait_failure_classification [where P = ?slow and d = ?d and fuel = 4 and hist = "[]"
               and T = 2000000000]
  note T2 = wait_failure_classification [where P = ?err and d = ?d and fuel = 4 and hist = "[]"
               and previous_uids = None]
  note T3 = wait_failure_classification [where P = ?ok and d = ?d and fuel = 4 and hist = "[]"
               and replicas_v = 5]
  from T1 [THEN conjunct1, THEN mp, OF a1]
  have b1: "wait_ends ?slow ?d ''start'' [ReadDeployment ''enc'' ''ns''] (ready_observed ?slow ?d 3) []
        (Inl (RuntimeFailToStart '' Deployment enc did not start with a timeout of 2000''))
        [TimeNs, TimeNs, ReadDeployment ''enc'' ''ns'', Sleep,
         TimeNs, ReadDeployment ''enc'' ''ns'', Sleep, TimeNs]"
    unfolding rc nr .
  from T2 [THEN conjunct2, THEN conjunct1, THEN mp, OF a2]
  have b2: "wait_ends ?err ?d ''restart'' [ReadDeployment ''enc'' ''ns'', ListPods ''ns'' ''app=enc'']
        (restarted_observed ?err ?d []) []
        (Inl (RuntimeFailToStart
                '' Deployment enc did not restart with a timeout of 2000: ApiException(500)''))
        [TimeNs, TimeNs, ReadDeployment ''enc'' ''ns'']"
    unfolding rc lc by simp
  from T3 [THEN conjunct2, THEN conjunct2, THEN conjunct1, THEN mp, OF a3]
  have b3: "wait_ends ?ok ?d ''restart'' [ReadDeployment ''enc'' ''ns''] (ready_observed ?ok ?d 5) []
        (Inr ()) [TimeNs, TimeNs, ReadDeployment ''enc'' ''ns'']"
    unfolding rc .
  from T1 [THEN conjunct2, THEN conjunct2, THEN conjunct2, THEN conjunct1, THEN mp, OF a4]
  have b4: "wait_start_success ?slow 4 ?d [] \<noteq> None" by (rule conjunct1)
  from a1 b1 a2 b2 a3 b3 example_clock [of "\<lambda>n. status_of 1 1 1" "\<lambda>s. Returns []"] t f b4
  show ?thesis by (intro conjI)
qed


text \<open>
  Two platforms that differ in the ready count they report, 1 and 2 of 3: both waits
  time out with the same failure.
\<close>

theorem timeout_failure_counts_counterexample:
  "wait_start_success (example_platform (\<lambda>n. status_of 1 1 1) (\<lambda>s. Returns [])) 3
       (example_worker (example_args ''enc'' (Some 1)) ''enc'' 0) []
     = Some (Inl (RuntimeFailToStart '' Deployment enc did not start with a timeout of 2000''),
             [TimeNs, TimeNs, ReadDeployment ''enc'' ''ns'', Sleep,
              TimeNs, ReadDeployment ''enc'' ''ns'', Sleep, TimeNs])
   \<and> wait_start_success (example_platform (\<lambda>n. status_of 2 2 2) (\<lambda>s. Returns [])) 3
       (example_worker (example_args ''enc'' (Some 1)) ''enc'' 0) []
     = Some (Inl (RuntimeFailToStart '' Deployment enc did not start with a timeout of 2000''),
             [TimeNs, TimeNs, ReadDeployment ''enc'' ''ns'', Sleep,
              TimeNs, ReadDeployment ''enc'' ''ns'', Sleep, TimeNs])
   \<and> read_namespaced_deployment (example_platform (\<lambda>n. status_of 1 1 1) (\<lambda>s. Returns []))
        [TimeNs, TimeNs, ReadDeployment ''enc'' ''ns'', Sleep, TimeNs] ''enc'' ''ns''
       = Returns \<lparr>ready_replicas = Some 1, updated_replicas = Some 1, status_replicas = Some 1\<rparr>
   \<and> read_namespaced_deployment (example_platform (\<lambda>n. status_of 2 2 2) (\<lambda>s. Returns []))
        [TimeNs, TimeNs, ReadDeployment ''enc'' ''ns'', Sleep, TimeNs] ''enc'' ''ns''
       = Returns \<lparr>ready_replicas = Some 2, updated_replicas = Some 2, status_replicas = Some 2\<rparr>"
  by (simp add: wait_start_success_def after_loop_def eval_nat_numeral timeout_ns_2000
        start_check_def status_of_def fail_msg_def str_int_2000)

subsection \<open>The calls a wait issues\<close>



lemma poll_calls:
  assumes body: "\<And>h chk h'. body h = (chk, h') \<Longrightarrow> \<exists>cs. h' = h @ cs \<and> (\<forall>c\<in>set cs. Q c)"
    and t: "Q TimeNs" and s: "Q Sleep"
  shows "poll fuel P body tn now h = Some (ex, h') \<Longrightarrow> \<exists>W. h' = h @ W \<and> (\<forall>c\<in>set W. Q c)"
proof (induction fuel arbitrary: h)
  case 0
  then show ?case by simp
next
  case (Suc fuel)
  define h1 where "h1 = (case tn of None \<Rightarrow> h | Some t \<Rightarrow> h @ [TimeNs])"
  define pre where "pre = (case tn of None \<Rightarrow> [] | Some t \<Rightarrow> [TimeNs])"
  have h1: "h1 = h @ pre" and qpre: "\<forall>c\<in>set pre. Q c"
    using t by (auto simp: h1_def pre_def split: option.splits)
  show ?case
  proof (cases "\<exists>t. tn = Some t \<and> \<not> time_ns P h - now < t")
    case True
    then obtain t where t': "tn = Some t" "\<not> time_ns P h - now < t" by blast
    with Suc.prems have "h' = h @ [TimeNs]" by (simp_all only: poll_Suc_Some, simp_all)
    with t show ?thesis by auto
  next
    case False
    obtain chk h2 where b: "body h1 = (chk, h2)" by (cases "body h1")
    from body [OF b] obtain cs where cs: "h2 = h1 @ cs" "\<forall>c\<in>set cs. Q c" by blast
    from False Suc.prems b have step:
      "(case chk of Ready \<Rightarrow> Some (Success, h2)
         | NotReady \<Rightarrow> poll fuel P body tn now (h2 @ [Sleep])
         | Failed e \<Rightarrow> Some (Exit (Some e), h2)) = Some (ex, h')"
      by (cases tn) (auto simp: h1_def split: if_splits)
    show ?thesis
    proof (cases chk)
      case NotReady
      with step have "poll fuel P body tn now (h2 @ [Sleep]) = Some (ex, h')" by simp
      from Suc.IH [OF this] obtain W where W: "h' = (h2 @ [Sleep]) @ W" "\<forall>c\<in>set W. Q c" by blast
      have "h' = h @ (pre @ cs @ [Sleep] @ W)" using W cs h1 by simp
      moreover have "\<forall>c\<in>set (pre @ cs @ [Sleep] @ W). Q c" using W cs qpre s by auto
      ultimately show ?thesis by blast
    next
      case Ready
      with step cs h1 qpre have "h' = h @ (pre @ cs)" "\<forall>c\<in>set (pre @ cs). Q c" by auto
      then show ?thesis by blast
    next
      case (Failed e)
      with step cs h1 qpre have "h' = h @ (pre @ cs)" "\<forall>c\<in>set (pre @ cs). Q c" by auto
      then show ?thesis by blast
    qed
  qed
qed

lemma after_loop_calls:
  assumes body: "\<And>h chk h'. body h = (chk, h') \<Longrightarrow> \<exists>cs. h' = h @ cs \<and> (\<forall>c\<in>set cs. wait_call [d] c)"
    and r: "after_loop verb d (poll fuel P body tn now (hist @ [TimeNs])) = Some (r, hist')"
  shows "\<exists>W. hist' = hist @ W \<and> (\<forall>c\<in>set W. wait_call [d] c) \<and> W \<noteq> []"
proof -
  from r obtain ex where p: "poll fuel P body tn now (hist @ [TimeNs]) = Some (ex, hist')"
    by (auto simp: after_loop_def split: option.splits loop_exit.splits)
  have "\<exists>W. hist' = (hist @ [TimeNs]) @ W \<and> (\<forall>c\<in>set W. wait_call [d] c)"
  proof (rule poll_calls [where Q = "wait_call [d]" and body = body])
    show "wait_call [d] TimeNs" "wait_call [d] Sleep" by (simp_all add: wait_call_def)
    show "poll fuel P body tn now (hist @ [TimeNs]) = Some (ex, hist')" by (rule p)
  qed (rule body)
  then obtain W where "hist' = (hist @ [TimeNs]) @ W" "\<forall>c\<in>set W. wait_call [d] c" by blast
  then have "hist' = hist @ (TimeNs # W)" "\<forall>c\<in>set (TimeNs # W). wait_call [d] c" "TimeNs # W \<noteq> []"
    by (auto simp: wait_call_def)
  then show ?thesis by blast
qed


lemma wait_start_calls:
  assumes "wait_start_success P fuel d hist = Some (r, hist')"
  shows "\<exists>W. hist' = hist @ W \<and> (\<forall>c\<in>set W. wait_call [d] c) \<and> W \<noteq> []"
proof (rule after_loop_calls [OF _ assms [unfolded wait_start_success_def]])
  fix h chk h'
  assume "start_check P d h = (chk, h')"
  then have "h' = h @ [ReadDeployment (dns_name d) (k8s_namespace_dep d)]"
    by (auto simp: start_check_def Let_def split: response.splits if_splits)
  then show "\<exists>cs. h' = h @ cs \<and> (\<forall>c\<in>set cs. wait_call [d] c)"
    by (auto simp: wait_call_def polls_def)
qed



lemma wait_call_not_delete: "wait_call ds c \<Longrightarrow> \<not> is_delete c"
  by (auto simp: wait_call_def polls_def list_ex_iff)



lemma example_rollout_sel [simp]:
  "time_ns example_rollout h = 1000000000 * int (count_list h Sleep)"
  "read_namespaced_deployment example_rollout h n ns = status_of 3 3 3"
  "list_namespaced_pod example_rollout h ns sel
     = Returns [if list_ex (replaced sel) h then sel @ ''-new'' else sel @ ''-old'']"
  "deploy_service example_rollout h n ns r b = Returns (n @ ''.'' @ ns @ ''.svc'')"
  by (simp_all add: example_rollout_def example_platform_def)

subsection \<open>The pod controller\<close>

text \<open>
  C10. With the non-blocking-start flag false, \<^verbatim>\<open>K8sPod.wait_start_success\<close> raises
  \<^verbatim>\<open>ValueError\<close> at once, however many passes its waits would be allowed: no call is
  logged, not even a clock reading, and the controller is as it was.
\<close>

theorem pod_wait_start_success_requires_noblock:
  assumes "\<not> noblock_on_start (pod_args pod)"
  shows "K8sPod_wait_start_success P fuel pod hist
           = Some (Inl (ValueError '' should only be called when `noblock_on_start` is set to True''),
                   pod, hist)"
  using assms by (simp add: K8sPod_wait_start_success_def)

theorem pod_wait_start_success_requires_noblock_witness:
  "\<not> noblock_on_start (pod_args (example_pod False))
   \<and> K8sPod_wait_start_success (example_platform (\<lambda>n. status_of 3 3 3) (\<lambda>s. Returns [])) 0
        (example_pod False) []
       = Some (Inl (ValueError '' should only be called when `noblock_on_start` is set to True''),
               example_pod False, [])"
proof -
  have h: "\<not> noblock_on_start (pod_args (example_pod False))"
    by (simp add: example_pod_def)
  from pod_wait_start_success_requires_noblock [OF h] h show ?thesis by simp
qed

subsubsection \<open>\<^verbatim>\<open>scale\<close>\<close>





subsubsection \<open>\<^verbatim>\<open>rolling_update\<close>\<close>












lemma digit_char_inj: "d < 10 \<Longrightarrow> e < 10 \<Longrightarrow> digit_char d = digit_char e \<Longrightarrow> d = e"
proof -
  assume a: "d < 10" "e < 10" "digit_char d = digit_char e"
  have "distinct ''0123456789''" by simp
  moreover from a have "d < length ''0123456789''" "e < length ''0123456789''" by simp_all
  ultimately show "d = e" using a(3) unfolding digit_char_def by (simp only: nth_eq_iff_index_eq)
qed

lemma str_nat_not_Nil: "str_nat n \<noteq> []"
  by (subst str_nat.simps) simp

lemma str_nat_inj: "str_nat m = str_nat n \<Longrightarrow> m = n"
proof (induction m arbitrary: n rule: str_nat.induct)
  case (1 m)
  show ?case
  proof (cases "m < 10")
    case True
    show ?thesis
    proof (cases "n < 10")
      case n: True
      from "1.prems" True n have "digit_char m = digit_char n" by (simp add: str_nat.simps)
      with True n show ?thesis by (rule digit_char_inj)
    next
      case False
      from "1.prems" True False have "[digit_char m] = str_nat (n div 10) @ [digit_char (n mod 10)]"
        by (simp add: str_nat.simps [of m] str_nat.simps [of n])
      then have "str_nat (n div 10) = []" by simp
      with str_nat_not_Nil show ?thesis by blast
    qed
  next
    case False
    show ?thesis
    proof (cases "n < 10")
      case True
      from "1.prems" True False have "str_nat (m div 10) @ [digit_char (m mod 10)] = [digit_char n]"
        by (simp add: str_nat.simps [of m] str_nat.simps [of n])
      then have "str_nat (m div 10) = []" by simp
      with str_nat_not_Nil show ?thesis by blast
    next
      case n: False
      from "1.prems" False n have
        "str_nat (m div 10) @ [digit_char (m mod 10)] = str_nat (n div 10) @ [digit_char (n mod 10)]"
        by (simp add: str_nat.simps [of m] str_nat.simps [of n])
      then have q: "str_nat (m div 10) = str_nat (n div 10)"
        and r: "digit_char (m mod 10) = digit_char (n mod 10)" by simp_all
      from "1.IH" [OF False q] have "m div 10 = n div 10" .
      moreover from r have "m mod 10 = n mod 10" by (intro digit_char_inj) simp_all
      ultimately show ?thesis by (metis div_mult_mod_eq)
    qed
  qed
qed

text \<open>
  The workers the constructor builds have distinct DNS names when \<^verbatim>\<open>to_dns_name\<close> tells
  their names apart.
\<close>

lemma init_workers_distinct:
  assumes init: "K8sPod_init to_dns_name C ver args needs_v = Inr pod" and inj: "inj to_dns_name"
  shows "distinct (map dns_name (k8s_deployments pod))"
proof (cases "1 < shards_of args")
  case False
  then have "nat (shards_of args) \<le> 1" by simp
  then have "length (map dns_name (k8s_deployments pod)) \<le> 1"
    by (simp add: init_workers [OF init])
  then show ?thesis by (cases "map dns_name (k8s_deployments pod)") (auto simp: Suc_le_eq)
next
  case True
  have "map dns_name (k8s_deployments pod)
          = map (\<lambda>i. to_dns_name (name args @ ''-'' @ str_nat i)) [0..<nat (shards_of args)]"
    by (simp add: init_workers [OF init] K8sDeployment_init_def shard_name_def True str_int_def
          comp_def)
  moreover have "inj (\<lambda>i. to_dns_name (name args @ ''-'' @ str_nat i))"
    using inj by (auto simp: inj_def dest: str_nat_inj)
  ultimately show ?thesis by (simp add: distinct_map inj_on_def inj_def)
qed







subsubsection \<open>\<^verbatim>\<open>start\<close>\<close>

lemma K8sDeployment_start_no_delete:
  assumes "K8sDeployment_start P fuel d h = Some (r, d1, h1)"
  shows "\<exists>cs. h1 = h @ cs \<and> (\<forall>c\<in>set cs. \<not> is_delete c)"
proof -
  obtain r0 d0 h0 where dep: "(if name_dep d = ''gateway'' then deploy_gateway P d h
            else deploy_runtime P False d h) = (r0, d0, h0)"
    by (cases "if name_dep d = ''gateway'' then deploy_gateway P d h else deploy_runtime P False d h")
  then obtain c where h0: "h0 = h @ [c]" "\<not> is_delete c"
    by (auto simp: deploy_gateway_def deploy_runtime_def Let_def split: if_splits response.splits)
  show ?thesis
  proof (cases "r0 = Inr () \<and> \<not> noblock_on_start (common_args d0)")
    case False
    with assms dep have "h1 = h0"
      by (cases r0) (auto simp: K8sDeployment_start_def split: if_splits)
    with h0 show ?thesis by auto
  next
    case True
    with assms dep obtain r' where "wait_start_success P fuel d0 h0 = Some (r', h1)"
      by (auto simp: K8sDeployment_start_def split: option.splits)
    from wait_start_calls [OF this] obtain W where "h1 = h0 @ W" "\<forall>c\<in>set W. wait_call [d0] c"
      by blast
    with h0 have "h1 = h @ (c # W)" "\<forall>c'\<in>set (c # W). \<not> is_delete c'"
      by (auto dest: wait_call_not_delete)
    then show ?thesis by blast
  qed
qed

lemma enter_workers_no_delete:
  "enter_workers P fuel idx pod h = Some (r, pod', h') \<Longrightarrow>
     \<exists>cs. h' = h @ cs \<and> (\<forall>c\<in>set cs. \<not> is_delete c)"
proof (induction idx arbitrary: pod h)
  case Nil
  then show ?case by simp
next
  case (Cons i rest)
  from Cons.prems obtain r1 d1 h1 where
    s: "K8sDeployment_start P fuel (k8s_deployments pod ! i) h = Some (r1, d1, h1)"
    by (auto split: option.splits)
  from K8sDeployment_start_no_delete [OF s] obtain cs where cs: "h1 = h @ cs"
    "\<forall>c\<in>set cs. \<not> is_delete c" by blast
  show ?case
  proof (cases r1)
    case (Inl e)
    with Cons.prems s have "h' = h1" by simp
    with cs show ?thesis by blast
  next
    case (Inr u)
    with Cons.prems s obtain pod1 where "enter_workers P fuel rest pod1 h1 = Some (r, pod', h')"
      by auto
    from Cons.IH [OF this] obtain cs' where "h' = h1 @ cs'" "\<forall>c\<in>set cs'. \<not> is_delete c" by blast
    with cs have "h' = h @ (cs @ cs')" "\<forall>c\<in>set (cs @ cs'). \<not> is_delete c" by auto
    then show ?thesis by blast
  qed
qed

text \<open>\<^verbatim>\<open>K8sPod.start\<close> issues no deletion, whatever happens.\<close>

lemma K8sPod_start_no_delete:
  assumes "K8sPod_start P fuel pod h = Some (r, pod', h')"
  shows "\<exists>cs. h' = h @ cs \<and> (\<forall>c\<in>set cs. \<not> is_delete c)"
proof -
  from assms obtain r1 pod1 h1 where eh: "enter_head P fuel pod h = Some (r1, pod1, h1)"
    by (auto simp: K8sPod_start_def split: option.splits)
  have "\<exists>cs. h1 = h @ cs \<and> (\<forall>c\<in>set cs. \<not> is_delete c)"
  proof (cases "k8s_head_deployment pod")
    case None
    with eh show ?thesis by (simp add: enter_head_def)
  next
    case (Some hd)
    with eh obtain r2 d2 where "K8sDeployment_start P fuel hd h = Some (r2, d2, h1)"
      by (auto simp: enter_head_def split: option.splits sum.splits)
    then show ?thesis by (rule K8sDeployment_start_no_delete)
  qed
  then obtain cs where cs: "h1 = h @ cs" "\<forall>c\<in>set cs. \<not> is_delete c" by blast
  show ?thesis
  proof (cases r1)
    case (Inl e)
    with assms eh have "h' = h1" by (simp add: K8sPod_start_def)
    with cs show ?thesis by blast
  next
    case (Inr u)
    with assms eh have "enter_workers P fuel [0..<length (k8s_deployments pod1)] pod1 h1
                          = Some (r, pod', h')"
      by (simp add: K8sPod_start_def)
    from enter_workers_no_delete [OF this] obtain cs' where "h' = h1 @ cs'"
      "\<forall>c\<in>set cs'. \<not> is_delete c" by blast
    with cs have "h' = h @ (cs @ cs')" "\<forall>c\<in>set (cs @ cs'). \<not> is_delete c" by auto
    then show ?thesis by blast
  qed
qed

text \<open>
  C2. A blocking start of a head and two workers on a platform where the second worker
  never gets ready: \<^verbatim>\<open>start\<close> raises the failure of that worker's wait, the three
  deployments have been created, none has been deleted, and the head and the first
  worker only are registered for \<^verbatim>\<open>close\<close>.
\<close>

theorem blocking_start_failure_deletes_nothing:
  "map_option fst
     (K8sPod_start
        (example_platform (\<lambda>n. if n = ''enc-1'' then status_of 0 0 0
                                else if n = ''enc-head'' then status_of 1 1 1 else status_of 3 3 3)
           (\<lambda>s. Returns []))
        3 (example_pod False) [])
     = Some (Inl (RuntimeFailToStart '' Deployment enc-1 did not start with a timeout of 2000''))
   \<and> map_option (snd \<circ> snd)
     (K8sPod_start
        (example_platform (\<lambda>n. if n = ''enc-1'' then status_of 0 0 0
                                else if n = ''enc-head'' then status_of 1 1 1 else status_of 3 3 3)
           (\<lambda>s. Returns []))
        3 (example_pod False) [])
     = Some [DeployService ''enc-head'' ''ns'' 1 False, TimeNs, TimeNs,
             ReadDeployment ''enc-head'' ''ns'',
             DeployService ''enc-0'' ''ns'' 3 False, TimeNs, TimeNs,
             ReadDeployment ''enc-0'' ''ns'',
             DeployService ''enc-1'' ''ns'' 3 False, TimeNs, TimeNs,
             ReadDeployment ''enc-1'' ''ns'', Sleep, TimeNs,
             ReadDeployment ''enc-1'' ''ns'', Sleep, TimeNs]
   \<and> map_option (entered \<circ> fst \<circ> snd)
     (K8sPod_start
        (example_platform (\<lambda>n. if n = ''enc-1'' then status_of 0 0 0
                                else if n = ''enc-head'' then status_of 1 1 1 else status_of 3 3 3)
           (\<lambda>s. Returns []))
        3 (example_pod False) [])
     = Some [HeadRef, WorkerRef 0]
   \<and> \<not> list_ex is_delete
          [DeployService ''enc-head'' ''ns'' 1 False, TimeNs, TimeNs,
           ReadDeployment ''enc-head'' ''ns'',
           DeployService ''enc-0'' ''ns'' 3 False, TimeNs, TimeNs,
           ReadDeployment ''enc-0'' ''ns'',
           DeployService ''enc-1'' ''ns'' 3 False, TimeNs, TimeNs,
           ReadDeployment ''enc-1'' ''ns'', Sleep, TimeNs,
           ReadDeployment ''enc-1'' ''ns'', Sleep, TimeNs]"
  by (simp add: K8sPod_start_def enter_head_def example_pod_def K8sDeployment_start_def
        deploy_runtime_def wait_start_success_def after_loop_def timeout_ns_2000 start_check_def
        status_of_def fail_msg_def str_int_2000 eval_nat_numeral upt_rec)

text \<open>
  The same failure met by \<^verbatim>\<open>K8sPod.wait_start_success\<close> after a non-blocking start, which
  has registered the three handles: they are deleted before the failure is raised again.
\<close>

lemma nonblocking_start_failure_deletes_all:
  "map_option (take 14 \<circ> snd \<circ> snd)
     (K8sPod_wait_start_success
        (example_platform (\<lambda>n. if n = ''enc-1'' then status_of 0 0 0
                                else if n = ''enc-head'' then status_of 1 1 1 else status_of 3 3 3)
           (\<lambda>s. Returns []))
        3 ((example_pod True)\<lparr>entered := [HeadRef, WorkerRef 0, WorkerRef 1]\<rparr>) [])
     = Some [TimeNs, TimeNs, ReadDeployment ''enc-head'' ''ns'',
             TimeNs, TimeNs, ReadDeployment ''enc-0'' ''ns'',
             TimeNs, TimeNs, ReadDeployment ''enc-1'' ''ns'', Sleep, TimeNs,
             ReadDeployment ''enc-1'' ''ns'', Sleep, TimeNs]
   \<and> map_option (set \<circ> drop 14 \<circ> snd \<circ> snd)
     (K8sPod_wait_start_success
        (example_platform (\<lambda>n. if n = ''enc-1'' then status_of 0 0 0
                                else if n = ''enc-head'' then status_of 1 1 1 else status_of 3 3 3)
           (\<lambda>s. Returns []))
        3 ((example_pod True)\<lparr>entered := [HeadRef, WorkerRef 0, WorkerRef 1]\<rparr>) [])
     = Some {DeleteDeployment ''enc-head'' ''ns'', DeleteDeployment ''enc-0'' ''ns'',
             DeleteDeployment ''enc-1'' ''ns''}"
  by (simp add: K8sPod_wait_start_success_def K8sPod_close_def handle_of_def example_pod_def
        K8sDeployment_close_def wait_start_success_def after_loop_def timeout_ns_2000
        start_check_def status_of_def eval_nat_numeral)

end
